theory Spec2Isabelle
  imports Main
begin

section \<open>JavaScript values\<close>

text \<open>
  Values of type \<open>unknown\<close> as they reach the plugin from \<open>data.json\<close> or from a
  caller: the JSON shapes plus \<open>undefined\<close>. An object is an association list of its
  own enumerable properties in insertion order; a property lookup takes the first entry
  of the key and yields \<open>undefined\<close> for a key that is absent. Numbers are integers
  here: no function below computes with them.
\<close>

datatype jsval =
    JUndefined
  | JNull
  | JBool bool
  | JNum int
  | JStr string
  | JArr "jsval list"
  | JObj "(string \<times> jsval) list"

definition js_get :: "(string \<times> jsval) list \<Rightarrow> string \<Rightarrow> jsval" where
  "js_get fs k = (case map_of fs k of None \<Rightarrow> JUndefined | Some v \<Rightarrow> v)"

text \<open>The operator \<open>k in obj\<close> on a plain object.\<close>

definition js_has_key :: "(string \<times> jsval) list \<Rightarrow> string \<Rightarrow> bool" where
  "js_has_key fs k = (map_of fs k \<noteq> None)"

section \<open>Calendar source descriptors (src/types/calendar_settings.ts)\<close>

text \<open>
  \<open>calendarOptionsSchema\<close> is a zod discriminated union on the key \<open>type\<close> with five
  object schemas; \<open>colorValidator\<close> is the object schema \<open>{color: string}\<close>. The result
  of \<open>parseCalendarInfo\<close> is the spread of both parse results: the fields of the
  variant and the colour.
\<close>

datatype CalendarOptions =
    Local string
  | DailyNote string
  | ICal string
  | CalDAV string string string string string
  | GCal string string

record CalendarInfo =
  options :: CalendarOptions
  color :: string

datatype ZodError = InvalidType | InvalidString | InvalidUnionDiscriminator

text \<open>\<open>z.string()\<close>: the input must be a string; \<open>undefined\<close> (a missing key) fails.\<close>

fun z_string :: "jsval \<Rightarrow> ZodError + string" where
  "z_string (JStr s) = Inr s"
| "z_string _ = Inl InvalidType"

text \<open>
  \<open>z.string().url()\<close>: a string that the platform's URL constructor accepts. That
  constructor is outside the repository, so its verdict is the parameter \<open>is_url\<close>.
\<close>

fun z_string_url :: "(string \<Rightarrow> bool) \<Rightarrow> jsval \<Rightarrow> ZodError + string" where
  "z_string_url is_url (JStr s) = (if is_url s then Inr s else Inl InvalidString)"
| "z_string_url is_url _ = Inl InvalidType"

text \<open>Sequencing of two parses: the first failure is the one thrown.\<close>

definition zbind :: "ZodError + 'a \<Rightarrow> ('a \<Rightarrow> ZodError + 'b) \<Rightarrow> ZodError + 'b" where
  "zbind r f = (case r of Inl e \<Rightarrow> Inl e | Inr x \<Rightarrow> f x)"

text \<open>
  The five object schemas. Each reads the keys of its shape from the input object and
  drops every other key.
\<close>

definition local_schema :: "(string \<times> jsval) list \<Rightarrow> ZodError + CalendarOptions" where
  "local_schema fs = zbind (z_string (js_get fs ''directory'')) (\<lambda>d. Inr (Local d))"

definition dailynote_schema :: "(string \<times> jsval) list \<Rightarrow> ZodError + CalendarOptions" where
  "dailynote_schema fs = zbind (z_string (js_get fs ''heading'')) (\<lambda>h. Inr (DailyNote h))"

definition ical_schema ::
  "(string \<Rightarrow> bool) \<Rightarrow> (string \<times> jsval) list \<Rightarrow> ZodError + CalendarOptions" where
  "ical_schema is_url fs = zbind (z_string_url is_url (js_get fs ''url'')) (\<lambda>u. Inr (ICal u))"

definition caldav_schema ::
  "(string \<Rightarrow> bool) \<Rightarrow> (string \<times> jsval) list \<Rightarrow> ZodError + CalendarOptions" where
  "caldav_schema is_url fs =
     zbind (z_string (js_get fs ''name'')) (\<lambda>n.
     zbind (z_string_url is_url (js_get fs ''url'')) (\<lambda>u.
     zbind (z_string_url is_url (js_get fs ''homeUrl'')) (\<lambda>h.
     zbind (z_string (js_get fs ''username'')) (\<lambda>un.
     zbind (z_string (js_get fs ''password'')) (\<lambda>pw.
       Inr (CalDAV n u h un pw))))))"

definition gcal_schema :: "(string \<times> jsval) list \<Rightarrow> ZodError + CalendarOptions" where
  "gcal_schema fs =
     zbind (z_string (js_get fs ''calendarId'')) (\<lambda>c.
     zbind (z_string (js_get fs ''name'')) (\<lambda>n.
       Inr (GCal c n)))"

text \<open>
  \<open>z.discriminatedUnion("type", [...])\<close>: the input must be an object, the value of its
  \<open>type\<close> key selects the schema, and a value that names none of them fails.
\<close>

fun calendarOptionsSchema :: "(string \<Rightarrow> bool) \<Rightarrow> jsval \<Rightarrow> ZodError + CalendarOptions" where
  "calendarOptionsSchema is_url (JObj fs) =
     (case js_get fs ''type'' of
        JStr t \<Rightarrow>
          if t = ''local'' then local_schema fs
          else if t = ''dailynote'' then dailynote_schema fs
          else if t = ''ical'' then ical_schema is_url fs
          else if t = ''caldav'' then caldav_schema is_url fs
          else if t = ''gcal'' then gcal_schema fs
          else Inl InvalidUnionDiscriminator
      | _ \<Rightarrow> Inl InvalidUnionDiscriminator)"
| "calendarOptionsSchema is_url _ = Inl InvalidType"

fun colorValidator :: "jsval \<Rightarrow> ZodError + string" where
  "colorValidator (JObj fs) = z_string (js_get fs ''color'')"
| "colorValidator _ = Inl InvalidType"

definition parseCalendarInfo :: "(string \<Rightarrow> bool) \<Rightarrow> jsval \<Rightarrow> ZodError + CalendarInfo" where
  "parseCalendarInfo is_url obj =
     zbind (calendarOptionsSchema is_url obj) (\<lambda>opts.
     zbind (colorValidator obj) (\<lambda>c.
       Inr \<lparr>options = opts, color = c\<rparr>))"

text \<open>
  \<open>safeParseCalendarInfo\<close> wraps the parse in \<open>try\<close>/\<open>catch\<close>; the handler logs a
  \<open>ZodError\<close> and returns \<open>null\<close> for whatever was thrown.
\<close>

definition safeParseCalendarInfo :: "(string \<Rightarrow> bool) \<Rightarrow> jsval \<Rightarrow> CalendarInfo option" where
  "safeParseCalendarInfo is_url obj =
     (case parseCalendarInfo is_url obj of Inl e \<Rightarrow> None | Inr info \<Rightarrow> Some info)"

subsection \<open>Descriptor conformance, in the words of the specification\<close>

text \<open>
  A descriptor conforms to a variant when its \<open>type\<close> key holds the variant's tag and
  every field of the variant is present as a string (a well-formed URL where the schema
  asks for one). \<open>describes is_url fs opts\<close> says that the object with the properties
  \<open>fs\<close> conforms to the variant of \<open>opts\<close> and carries exactly its field values.
\<close>

definition describes ::
  "(string \<Rightarrow> bool) \<Rightarrow> (string \<times> jsval) list \<Rightarrow> CalendarOptions \<Rightarrow> bool" where
  "describes is_url fs opts =
     (case opts of
        Local d \<Rightarrow> js_get fs ''type'' = JStr ''local'' \<and> js_get fs ''directory'' = JStr d
      | DailyNote h \<Rightarrow> js_get fs ''type'' = JStr ''dailynote'' \<and> js_get fs ''heading'' = JStr h
      | ICal u \<Rightarrow> js_get fs ''type'' = JStr ''ical'' \<and> js_get fs ''url'' = JStr u \<and> is_url u
      | CalDAV n u h un pw \<Rightarrow>
          js_get fs ''type'' = JStr ''caldav'' \<and> js_get fs ''name'' = JStr n \<and>
          js_get fs ''url'' = JStr u \<and> is_url u \<and>
          js_get fs ''homeUrl'' = JStr h \<and> is_url h \<and>
          js_get fs ''username'' = JStr un \<and> js_get fs ''password'' = JStr pw
      | GCal c n \<Rightarrow>
          js_get fs ''type'' = JStr ''gcal'' \<and> js_get fs ''calendarId'' = JStr c \<and>
          js_get fs ''name'' = JStr n)"

section \<open>Plugin settings and persistence (src/main.ts, src/ui/settings.ts)\<close>

record InitialView =
  desktop :: string
  mobile :: string

text \<open>
  The settings object. Keys that \<open>loadSettings\<close> merged in from disk beyond the
  declared ones travel in the record's extension part.
\<close>

record FullCalendarSettings =
  calendarSources :: "CalendarInfo list"
  defaultCalendar :: int
  firstDay :: int
  initialView :: InitialView
  timeFormat24h :: bool
  clickToCreateEventFromMonthView :: bool
  slotMinTime :: string
  slotMaxTime :: string
  googleClientId :: string
  googleClientSecret :: string
  googleRefreshToken :: string
  googleAccessToken :: string
  googleTokenExpiry :: int

text \<open>\<open>DEFAULT_SETTINGS\<close> of src/ui/settings.ts.\<close>

definition DEFAULT_SETTINGS :: FullCalendarSettings where
  "DEFAULT_SETTINGS =
     \<lparr>calendarSources = [], defaultCalendar = 0, firstDay = 0,
      initialView = \<lparr>desktop = ''timeGridWeek'', mobile = ''timeGrid3Days''\<rparr>,
      timeFormat24h = False, clickToCreateEventFromMonthView = True,
      slotMinTime = ''00:00:00'', slotMaxTime = ''24:00:00'',
      googleClientId = '''', googleClientSecret = '''',
      googleRefreshToken = '''', googleAccessToken = '''', googleTokenExpiry = 0\<rparr>"

text \<open>What \<open>Plugin.saveData\<close> of the host writes: a settings object or the caller's value.\<close>

datatype 'a persisted =
    SavedSettings "'a FullCalendarSettings_scheme"
  | SavedRaw jsval

record 'a plugin =
  settings :: "'a FullCalendarSettings_scheme"
  disk :: "'a persisted option"

definition getSettingsForSave :: "'a plugin \<Rightarrow> 'a FullCalendarSettings_scheme" where
  "getSettingsForSave p =
     (settings p)\<lparr>googleRefreshToken := '''', googleAccessToken := '''', googleTokenExpiry := 0\<rparr>"

text \<open>
  The test \<open>data && typeof data === "object" && "calendarSources" in data\<close>. Objects and
  arrays are the truthy values of type \<open>object\<close>; an array has no key of that name.
\<close>

fun has_calendarSources :: "jsval \<Rightarrow> bool" where
  "has_calendarSources (JObj fs) = js_has_key fs ''calendarSources''"
| "has_calendarSources _ = False"

text \<open>\<open>data ?? d\<close>: the default replaces \<open>null\<close> and \<open>undefined\<close> only.\<close>

fun nullish :: "jsval \<Rightarrow> bool" where
  "nullish JUndefined = True"
| "nullish JNull = True"
| "nullish _ = False"

definition saveData :: "'a plugin \<Rightarrow> jsval \<Rightarrow> 'a plugin" where
  "saveData p data =
     (let toSave =
            (if has_calendarSources data then SavedSettings (getSettingsForSave p)
             else if nullish data then SavedSettings (getSettingsForSave p)
             else SavedRaw data)
      in p\<lparr>disk := Some toSave\<rparr>)"

section \<open>File-system notifications (src/main.ts, onload)\<close>

text \<open>
  What the handlers registered in \<open>onload\<close> see of a vault entry: whether it is a
  \<open>TFile\<close>, and its path.
\<close>

datatype vault_entry = EntryFile string | EntryFolder string

text \<open>
  The three registrations: \<open>metadataCache.on("changed")\<close> hands over a file,
  \<open>vault.on("rename")\<close> an entry (already at its new path) and the old path,
  \<open>vault.on("delete")\<close> an entry.
\<close>

datatype notification =
    Changed string
  | Renamed vault_entry string
  | Deleted vault_entry

datatype cache_call = FileUpdated string | DeleteEventsAtPath string

fun on_notification :: "notification \<Rightarrow> cache_call list" where
  "on_notification (Changed file) = [FileUpdated file]"
| "on_notification (Renamed (EntryFile newPath) oldPath) = [DeleteEventsAtPath oldPath]"
| "on_notification (Renamed (EntryFolder newPath) oldPath) = []"
| "on_notification (Deleted (EntryFile p)) = [DeleteEventsAtPath p]"
| "on_notification (Deleted (EntryFolder p)) = []"

section \<open>One note per event (src/calendars/FullNoteCalendar.ts)\<close>

subsection \<open>Strings and printable values\<close>

text \<open>\<open>Array.prototype.join\<close> on an array of strings.\<close>

fun js_join :: "string \<Rightarrow> string list \<Rightarrow> string" where
  "js_join sep [] = []"
| "js_join sep [x] = x"
| "js_join sep (x # y # ys) = x @ sep @ js_join sep (y # ys)"

text \<open>The decimal text of an integer, as a template literal prints a number.\<close>

fun nat_digits :: "nat \<Rightarrow> string" where
  "nat_digits n =
     (if n < 10 then [''0123456789'' ! n]
      else nat_digits (n div 10) @ [''0123456789'' ! (n mod 10)])"

declare nat_digits.simps [simp del]

definition js_int_to_string :: "int \<Rightarrow> string" where
  "js_int_to_string i = (if i < 0 then ''-'' @ nat_digits (nat (- i)) else nat_digits (nat i))"

text \<open>
  \<open>PrintableAtom\<close> of the source: an array of numbers and strings, a number, a string,
  a boolean or \<open>null\<close>. A property value is a \<open>PrintableAtom option\<close>, \<open>None\<close> standing
  for \<open>undefined\<close>. Numbers are integers here; no field of an event that the calendar
  prints is a fraction.
\<close>

datatype atom = ENum int | EStr string

datatype PrintableAtom =
    PArr "atom list"
  | PNum int
  | PStr string
  | PBool bool
  | PNull

fun atom_to_string :: "atom \<Rightarrow> string" where
  "atom_to_string (ENum i) = js_int_to_string i"
| "atom_to_string (EStr s) = s"

text \<open>The text a template literal \<open>`${v}`\<close> inserts for a value.\<close>

fun template :: "PrintableAtom option \<Rightarrow> string" where
  "template None = ''undefined''"
| "template (Some PNull) = ''null''"
| "template (Some (PBool b)) = (if b then ''true'' else ''false'')"
| "template (Some (PNum i)) = js_int_to_string i"
| "template (Some (PStr s)) = s"
| "template (Some (PArr xs)) = js_join '','' (map atom_to_string xs)"

text \<open>Truthiness of a property value, as \<open>!v\<close> reads it.\<close>

fun truthy :: "PrintableAtom option \<Rightarrow> bool" where
  "truthy None = False"
| "truthy (Some PNull) = False"
| "truthy (Some (PBool b)) = b"
| "truthy (Some (PNum i)) = (i \<noteq> 0)"
| "truthy (Some (PStr s)) = (s \<noteq> [])"
| "truthy (Some (PArr xs)) = True"

subsection \<open>Events as objects\<close>

text \<open>
  An \<open>OFCEvent\<close> (and the raw frontmatter of a note) is an object: its entries in
  insertion order, as \<open>Object.entries\<close> lists them. A key may be present with the value
  \<open>undefined\<close>. Reading a property takes the first entry of the key.
\<close>

type_synonym OFCEvent = "(string \<times> PrintableAtom option) list"

definition get_prop :: "OFCEvent \<Rightarrow> string \<Rightarrow> PrintableAtom option" where
  "get_prop ev k = (case map_of ev k of None \<Rightarrow> None | Some v \<Rightarrow> v)"

text \<open>The assignment \<open>ev.k = v\<close>: an existing key keeps its place, a new key goes last.\<close>

fun set_prop :: "OFCEvent \<Rightarrow> string \<Rightarrow> PrintableAtom option \<Rightarrow> OFCEvent" where
  "set_prop [] k v = [(k, v)]"
| "set_prop ((k', v') # ev) k v =
     (if k' = k then (k, v) # ev else (k', v') # set_prop ev k v)"

subsection \<open>Errors\<close>

datatype error =
    TypeError
  | RRuleError string
  | InlineNotSupported
  | FileMissing string
  | WrongCalendarType string
  | AlreadyExists string
  | CannotGetFolder string
  | NotADirectory
  | VaultError string

subsection \<open>File names\<close>

text \<open>
  \<open>basenameFromEvent\<close>. The switch is on \<open>event.type\<close>; a value that matches no case
  leaves the function without a \<open>return\<close>, so the result is \<open>undefined\<close> (\<open>None\<close>).
  \<open>event.daysOfWeek.join\<close> throws a \<open>TypeError\<close> unless \<open>daysOfWeek\<close> is an array.
  \<open>rrulestr(event.rrule).toText()\<close> belongs to the rrule library: its result, or what
  it throws, is the parameter \<open>rrule_toText\<close>.
\<close>

definition basenameFromEvent ::
  "(PrintableAtom option \<Rightarrow> error + string) \<Rightarrow> OFCEvent \<Rightarrow> error + string option" where
  "basenameFromEvent rrule_toText event =
     (if get_prop event ''type'' = None \<or> get_prop event ''type'' = Some (PStr ''single'') then
        Inr (Some (template (get_prop event ''date'') @ '' '' @ template (get_prop event ''title'')))
      else if get_prop event ''type'' = Some (PStr ''recurring'') then
        (case get_prop event ''daysOfWeek'' of
           Some (PArr days) \<Rightarrow>
             Inr (Some (''(Every '' @ js_join '','' (map atom_to_string days) @ '') '' @
                        template (get_prop event ''title'')))
         | _ \<Rightarrow> Inl TypeError)
      else if get_prop event ''type'' = Some (PStr ''rrule'') then
        (case rrule_toText (get_prop event ''rrule'') of
           Inl e \<Rightarrow> Inl e
         | Inr txt \<Rightarrow> Inr (Some (''('' @ txt @ '') '' @ template (get_prop event ''title''))))
      else Inr None)"

definition filenameForEvent ::
  "(PrintableAtom option \<Rightarrow> error + string) \<Rightarrow> OFCEvent \<Rightarrow> error + string" where
  "filenameForEvent rrule_toText event =
     (case basenameFromEvent rrule_toText event of
        Inl e \<Rightarrow> Inl e
      | Inr None \<Rightarrow> Inr (''undefined'' @ ''.md'')
      | Inr (Some b) \<Rightarrow> Inr (b @ ''.md''))"

subsection \<open>Vault paths\<close>

text \<open>\<open>path.replace(/\\/g, "/")\<close>: every backslash becomes a slash.\<close>

definition backslashes_to_slashes :: "string \<Rightarrow> string" where
  "backslashes_to_slashes p = map (\<lambda>c. if c = CHR 0x5C then CHR ''/'' else c) p"

text \<open>\<open>.replace(/\/+/g, "/")\<close>: every run of slashes becomes one slash.\<close>

fun collapse_slashes :: "string \<Rightarrow> string" where
  "collapse_slashes (c # d # cs) =
     (if c = CHR ''/'' \<and> d = CHR ''/'' then collapse_slashes (d # cs)
      else c # collapse_slashes (d # cs))"
| "collapse_slashes cs = cs"

text \<open>\<open>.replace(/^\//, "")\<close>: one slash at the start is removed.\<close>

fun strip_leading_slash :: "string \<Rightarrow> string" where
  "strip_leading_slash (c # cs) = (if c = CHR ''/'' then cs else c # cs)"
| "strip_leading_slash [] = []"

definition normalizeVaultPath :: "string \<Rightarrow> string" where
  "normalizeVaultPath p = strip_leading_slash (collapse_slashes (backslashes_to_slashes p))"

definition joinVaultPath :: "string \<Rightarrow> string \<Rightarrow> string" where
  "joinVaultPath directory filename =
     (let dir = normalizeVaultPath directory
      in if dir = [] then filename else normalizeVaultPath (dir @ ''/'' @ filename))"

subsection \<open>Frontmatter of a new note\<close>

fun stringifyYamlAtom :: "PrintableAtom \<Rightarrow> string" where
  "stringifyYamlAtom (PArr xs) = ''['' @ js_join '','' (map atom_to_string xs) @ '']''"
| "stringifyYamlAtom v = template (Some v)"

definition stringifyYamlLine :: "string \<Rightarrow> PrintableAtom \<Rightarrow> string" where
  "stringifyYamlLine k v = k @ '': '' @ stringifyYamlAtom v"

text \<open>The entries whose value is not \<open>undefined\<close>, one line each, between two fences.\<close>

definition newFrontmatter :: "OFCEvent \<Rightarrow> string" where
  "newFrontmatter flds =
     ''---'' @ [CHR 0x0A] @
     js_join [CHR 0x0A] [stringifyYamlLine k v. (k, Some v) \<leftarrow> flds] @
     [CHR 0x0A] @ ''---'' @ [CHR 0x0A]"

subsection \<open>The vault, as the calendar sees it\<close>

text \<open>
  An object with a \<open>path\<close>; a \<open>TFile\<close> is one, with its name, its base name and the
  path of its parent folder (\<open>file.parent.path\<close>).
\<close>

record PathRef =
  path :: string

record TFile = PathRef +
  name :: string
  basename :: string
  parent_path :: string

text \<open>A vault entry: a file, or a folder with its path and its children.\<close>

datatype TAbstractFile = AFile TFile | AFolder string "TAbstractFile list"

record 'f EventLocation =
  "file" :: 'f
  lineNumber :: "int option"

record EventPathLocation =
  loc_path :: string
  loc_lineNumber :: "int option"

record Metadata =
  frontmatter :: "OFCEvent option"

text \<open>
  \<open>ObsidianInterface\<close> (src/ObsidianAdapter.ts) is not among the sources: the calendar
  is verified against every implementation of it. The vault is a state of type \<open>'v\<close>;
  lookups read it, and \<open>create\<close>, \<open>rename\<close>, \<open>rewrite\<close> and \<open>delete\<close> either throw or
  yield the next state. \<open>rewrite\<close> is handed the text transformer.
\<close>

record 'v ObsidianInterface =
  getAbstractFileByPath :: "'v \<Rightarrow> string \<Rightarrow> TAbstractFile option"
  getFileByPath :: "'v \<Rightarrow> string \<Rightarrow> TFile option"
  getRoot :: "'v \<Rightarrow> TAbstractFile option"
  getMetadata :: "'v \<Rightarrow> TFile \<Rightarrow> Metadata option"
  create :: "'v \<Rightarrow> string \<Rightarrow> string \<Rightarrow> error + TFile \<times> 'v"
  rename :: "'v \<Rightarrow> TFile \<Rightarrow> string \<Rightarrow> error + 'v"
  rewrite :: "'v \<Rightarrow> TFile \<Rightarrow> (string \<Rightarrow> error + string) \<Rightarrow> error + 'v"
  delete :: "'v \<Rightarrow> TFile \<Rightarrow> error + 'v"

text \<open>
  Everything a method does to the outside, in order: the calls of the caller's
  \<open>updateCacheWithLocation\<close> and the mutating calls on the vault, whether they succeed
  or throw.
\<close>

datatype effect =
    UpdateCacheWithLocation "PathRef EventLocation"
  | Create string string
  | Rename TFile string
  | Rewrite TFile
  | Delete TFile

record 'v world =
  vault :: 'v
  trace :: "effect list"

definition call_create ::
  "'v ObsidianInterface \<Rightarrow> string \<Rightarrow> string \<Rightarrow> 'v world \<Rightarrow> (error + TFile) \<times> 'v world" where
  "call_create app p contents w =
     (let w' = w\<lparr>trace := trace w @ [Create p contents]\<rparr>
      in case create app (vault w) p contents of
           Inl e \<Rightarrow> (Inl e, w')
         | Inr (f, v') \<Rightarrow> (Inr f, w'\<lparr>vault := v'\<rparr>))"

definition call_rename ::
  "'v ObsidianInterface \<Rightarrow> TFile \<Rightarrow> string \<Rightarrow> 'v world \<Rightarrow> (error + unit) \<times> 'v world" where
  "call_rename app f newPath w =
     (let w' = w\<lparr>trace := trace w @ [Rename f newPath]\<rparr>
      in case rename app (vault w) f newPath of
           Inl e \<Rightarrow> (Inl e, w')
         | Inr v' \<Rightarrow> (Inr (), w'\<lparr>vault := v'\<rparr>))"

definition call_rewrite ::
  "'v ObsidianInterface \<Rightarrow> TFile \<Rightarrow> (string \<Rightarrow> error + string) \<Rightarrow> 'v world \<Rightarrow>
   (error + unit) \<times> 'v world" where
  "call_rewrite app f transform w =
     (let w' = w\<lparr>trace := trace w @ [Rewrite f]\<rparr>
      in case rewrite app (vault w) f transform of
           Inl e \<Rightarrow> (Inl e, w')
         | Inr v' \<Rightarrow> (Inr (), w'\<lparr>vault := v'\<rparr>))"

definition call_delete ::
  "'v ObsidianInterface \<Rightarrow> TFile \<Rightarrow> 'v world \<Rightarrow> (error + unit) \<times> 'v world" where
  "call_delete app f w =
     (let w' = w\<lparr>trace := trace w @ [Delete f]\<rparr>
      in case delete app (vault w) f of
           Inl e \<Rightarrow> (Inl e, w')
         | Inr v' \<Rightarrow> (Inr (), w'\<lparr>vault := v'\<rparr>))"

definition call_updateCacheWithLocation :: "PathRef EventLocation \<Rightarrow> 'v world \<Rightarrow> 'v world" where
  "call_updateCacheWithLocation l w = w\<lparr>trace := trace w @ [UpdateCacheWithLocation l]\<rparr>"

subsection \<open>Reading events\<close>

text \<open>
  \<open>validateEvent\<close> (src/types) is not among the sources; it is a parameter that turns
  the frontmatter of a note, if any, into an event or \<open>null\<close>.
\<close>

definition getEventsInFile ::
  "'v ObsidianInterface \<Rightarrow> (OFCEvent option \<Rightarrow> OFCEvent option) \<Rightarrow> 'v \<Rightarrow> TFile \<Rightarrow>
   (OFCEvent \<times> TFile EventLocation) list" where
  "getEventsInFile app validateEvent v f =
     (let metadata = getMetadata app v f
      in case validateEvent (case metadata of None \<Rightarrow> None | Some m \<Rightarrow> frontmatter m) of
           None \<Rightarrow> []
         | Some event \<Rightarrow>
             [(if \<not> truthy (get_prop event ''title'')
               then set_prop event ''title'' (Some (PStr (basename f)))
               else event,
               \<lparr>file = f, lineNumber = None\<rparr>)])"

text \<open>
  \<open>getEventsInFolderRecursive\<close>, on one child of a folder: a file gives its events,
  a folder the events of all its children, flattened in order.
\<close>

fun getEventsInFolderRecursive ::
  "'v ObsidianInterface \<Rightarrow> (OFCEvent option \<Rightarrow> OFCEvent option) \<Rightarrow> 'v \<Rightarrow> TAbstractFile \<Rightarrow>
   (OFCEvent \<times> TFile EventLocation) list" where
  "getEventsInFolderRecursive app validateEvent v (AFile f) =
     getEventsInFile app validateEvent v f"
| "getEventsInFolderRecursive app validateEvent v (AFolder p children) =
     concat (map (getEventsInFolderRecursive app validateEvent v) children)"

text \<open>The loop of \<open>getEvents\<close> over the children of the folder.\<close>

fun getEvents_loop ::
  "'v ObsidianInterface \<Rightarrow> (OFCEvent option \<Rightarrow> OFCEvent option) \<Rightarrow> 'v \<Rightarrow>
   TAbstractFile list \<Rightarrow> (OFCEvent \<times> TFile EventLocation) list \<Rightarrow>
   (OFCEvent \<times> TFile EventLocation) list" where
  "getEvents_loop app validateEvent v [] events = events"
| "getEvents_loop app validateEvent v (AFile f # rest) events =
     getEvents_loop app validateEvent v rest (events @ getEventsInFile app validateEvent v f)"
| "getEvents_loop app validateEvent v (AFolder p cs # rest) events =
     getEvents_loop app validateEvent v rest events"

definition getEvents ::
  "'v ObsidianInterface \<Rightarrow> (OFCEvent option \<Rightarrow> OFCEvent option) \<Rightarrow> string \<Rightarrow> 'v \<Rightarrow>
   error + (OFCEvent \<times> TFile EventLocation) list" where
  "getEvents app validateEvent directory v =
     (let dirPath = normalizeVaultPath directory;
          eventFolder = (if dirPath \<noteq> [] then getAbstractFileByPath app v dirPath
                         else getRoot app v)
      in case eventFolder of
           None \<Rightarrow> Inl (CannotGetFolder directory)
         | Some (AFile f) \<Rightarrow> Inl NotADirectory
         | Some (AFolder p children) \<Rightarrow> Inr (getEvents_loop app validateEvent v children []))"

subsection \<open>Writing events\<close>

definition createEvent ::
  "'v ObsidianInterface \<Rightarrow> (PrintableAtom option \<Rightarrow> error + string) \<Rightarrow> string \<Rightarrow> OFCEvent \<Rightarrow>
   'v world \<Rightarrow> (error + TFile EventLocation) \<times> 'v world" where
  "createEvent app rrule_toText directory event w =
     (case filenameForEvent rrule_toText event of
        Inl e \<Rightarrow> (Inl e, w)
      | Inr filename \<Rightarrow>
          let p = joinVaultPath directory filename
          in if getAbstractFileByPath app (vault w) p \<noteq> None then (Inl (AlreadyExists p), w)
             else (case call_create app p (newFrontmatter event) w of
                     (Inl e, w') \<Rightarrow> (Inl e, w')
                   | (Inr f, w') \<Rightarrow> (Inr \<lparr>file = f, lineNumber = None\<rparr>, w')))"

definition getNewLocation ::
  "'v ObsidianInterface \<Rightarrow> (PrintableAtom option \<Rightarrow> error + string) \<Rightarrow> 'v \<Rightarrow>
   EventPathLocation \<Rightarrow> OFCEvent \<Rightarrow> error + PathRef EventLocation" where
  "getNewLocation app rrule_toText v location event =
     (if loc_lineNumber location \<noteq> None then Inl InlineNotSupported
      else
        let normalizedPath = normalizeVaultPath (loc_path location)
        in case getFileByPath app v normalizedPath of
             None \<Rightarrow> Inl (FileMissing normalizedPath)
           | Some f \<Rightarrow>
               (case filenameForEvent rrule_toText event of
                  Inl e \<Rightarrow> Inl e
                | Inr filename \<Rightarrow>
                    Inr \<lparr>file = \<lparr>path = joinVaultPath (parent_path f) filename\<rparr>,
                         lineNumber = None\<rparr>))"

text \<open>
  \<open>modifyEvent\<close>. The text transformer \<open>modifyFrontmatterString(page, event)\<close> that
  \<open>rewrite\<close> receives is the parameter \<open>modifyFrontmatterString\<close>.
\<close>

definition modifyEvent ::
  "'v ObsidianInterface \<Rightarrow> (PrintableAtom option \<Rightarrow> error + string) \<Rightarrow>
   (string \<Rightarrow> OFCEvent \<Rightarrow> error + string) \<Rightarrow> EventPathLocation \<Rightarrow> OFCEvent \<Rightarrow>
   'v world \<Rightarrow> (error + unit) \<times> 'v world" where
  "modifyEvent app rrule_toText modifyFrontmatterString location event w =
     (let normalizedPath = normalizeVaultPath (loc_path location)
      in case getFileByPath app (vault w) normalizedPath of
           None \<Rightarrow> (Inl (FileMissing (loc_path location)), w)
         | Some f \<Rightarrow>
             (case getNewLocation app rrule_toText (vault w) location event of
                Inl e \<Rightarrow> (Inl e, w)
              | Inr newLocation \<Rightarrow>
                  (let w1 = call_updateCacheWithLocation newLocation w
                   in (case (if path f \<noteq> path (file newLocation)
                             then call_rename app f (path (file newLocation)) w1
                             else (Inr (), w1)) of
                         (Inl e, w2) \<Rightarrow> (Inl e, w2)
                       | (Inr u, w2) \<Rightarrow>
                           call_rewrite app f (\<lambda>page. modifyFrontmatterString page event) w2))))"

text \<open>The editable calendars of the plugin; \<open>instanceof FullNoteCalendar\<close> is the first case.\<close>

datatype EditableCalendar = FullNoteCalendar string | DailyNoteCalendar string

fun calendar_type :: "EditableCalendar \<Rightarrow> string" where
  "calendar_type (FullNoteCalendar d) = ''local''"
| "calendar_type (DailyNoteCalendar h) = ''dailynote''"

definition move ::
  "'v ObsidianInterface \<Rightarrow> EventPathLocation \<Rightarrow> EditableCalendar \<Rightarrow> 'v world \<Rightarrow>
   (error + unit) \<times> 'v world" where
  "move app fromLocation toCalendar w =
     (if loc_lineNumber fromLocation \<noteq> None then (Inl InlineNotSupported, w)
      else
        case toCalendar of
          DailyNoteCalendar h \<Rightarrow> (Inl (WrongCalendarType (calendar_type toCalendar)), w)
        | FullNoteCalendar destDir \<Rightarrow>
            (let normalizedPath = normalizeVaultPath (loc_path fromLocation)
             in (case getFileByPath app (vault w) normalizedPath of
                   None \<Rightarrow> (Inl (FileMissing normalizedPath), w)
                 | Some f \<Rightarrow>
                     (let newPath = joinVaultPath destDir (name f);
                          w1 = call_updateCacheWithLocation
                                 \<lparr>file = \<lparr>path = newPath\<rparr>, lineNumber = None\<rparr> w
                      in call_rename app f newPath w1))))"

definition deleteEvent ::
  "'v ObsidianInterface \<Rightarrow> EventPathLocation \<Rightarrow> 'v world \<Rightarrow> (error + unit) \<times> 'v world" where
  "deleteEvent app location w =
     (if loc_lineNumber location \<noteq> None then (Inl InlineNotSupported, w)
      else
        let normalizedPath = normalizeVaultPath (loc_path location)
        in case getFileByPath app (vault w) normalizedPath of
             None \<Rightarrow> (Inl (FileMissing normalizedPath), w)
           | Some f \<Rightarrow> call_delete app f w)"

subsection \<open>Folder and file name of a path\<close>



subsection \<open>An in-memory vault\<close>

text \<open>
  Modelled from the spec: the vault collaborator of section 6 (resolve a path to a file
  or folder handle, create a file with initial content, rewrite a file through a
  transform function, rename, delete, read the frontmatter metadata), which
  src/ObsidianAdapter.ts implements and which is not among the sources. It is one
  implementation of \<open>ObsidianInterface\<close>, used for the worked examples only. A file
  entry keeps the paths it had before a rename, since a handle that the calendar holds
  across a rename still denotes the file.
\<close>

record vfile =
  current :: string
  earlier :: "string list"
  contents :: string
  meta :: "OFCEvent option"

record mem_vault =
  vfiles :: "vfile list"
  vfolders :: "string list"

definition path_name :: "string \<Rightarrow> string" where
  "path_name p = rev (takeWhile (\<lambda>c. c \<noteq> CHR ''/'') (rev p))"

definition path_folder :: "string \<Rightarrow> string" where
  "path_folder p = rev (drop 1 (dropWhile (\<lambda>c. c \<noteq> CHR ''/'') (rev p)))"

definition name_without_extension :: "string \<Rightarrow> string" where
  "name_without_extension n =
     (if CHR ''.'' \<in> set n then rev (drop 1 (dropWhile (\<lambda>c. c \<noteq> CHR ''.'') (rev n))) else n)"

definition tfile_at :: "string \<Rightarrow> TFile" where
  "tfile_at p =
     \<lparr>path = p, name = path_name p, basename = name_without_extension (path_name p),
      parent_path = (if path_folder p = [] then ''/'' else path_folder p)\<rparr>"

definition mem_getFileByPath :: "mem_vault \<Rightarrow> string \<Rightarrow> TFile option" where
  "mem_getFileByPath v p =
     (if p \<in> set (map current (vfiles v)) then Some (tfile_at p) else None)"

text \<open>The folder at a path with its children, subfolders expanded to the given depth.\<close>

fun mem_folder :: "nat \<Rightarrow> mem_vault \<Rightarrow> string \<Rightarrow> TAbstractFile" where
  "mem_folder 0 v p = AFolder p []"
| "mem_folder (Suc n) v p =
     AFolder p
       ([AFile (tfile_at (current e)). e \<leftarrow> vfiles v, path_folder (current e) = p] @
        [mem_folder n v q. q \<leftarrow> vfolders v, path_folder q = p])"

definition mem_getAbstractFileByPath :: "mem_vault \<Rightarrow> string \<Rightarrow> TAbstractFile option" where
  "mem_getAbstractFileByPath v p =
     (if p \<in> set (map current (vfiles v)) then Some (AFile (tfile_at p))
      else if p \<in> set (vfolders v) then Some (mem_folder (length (vfolders v)) v p)
      else None)"

definition mem_getRoot :: "mem_vault \<Rightarrow> TAbstractFile option" where
  "mem_getRoot v =
     (case mem_folder (Suc (length (vfolders v))) v [] of
        AFolder p cs \<Rightarrow> Some (AFolder ''/'' cs)
      | AFile f \<Rightarrow> None)"

definition denotes :: "TFile \<Rightarrow> vfile \<Rightarrow> bool" where
  "denotes f e = (path f = current e \<or> path f \<in> set (earlier e))"

definition mem_getMetadata :: "mem_vault \<Rightarrow> TFile \<Rightarrow> Metadata option" where
  "mem_getMetadata v f =
     (case find (denotes f) (vfiles v) of
        None \<Rightarrow> None
      | Some e \<Rightarrow> Some \<lparr>frontmatter = meta e\<rparr>)"

definition mem_taken :: "mem_vault \<Rightarrow> string \<Rightarrow> bool" where
  "mem_taken v p = (p \<in> set (map current (vfiles v)) \<or> p \<in> set (vfolders v))"

definition mem_folder_exists :: "mem_vault \<Rightarrow> string \<Rightarrow> bool" where
  "mem_folder_exists v d = (d = [] \<or> d \<in> set (vfolders v))"

definition mem_create :: "mem_vault \<Rightarrow> string \<Rightarrow> string \<Rightarrow> error + TFile \<times> mem_vault" where
  "mem_create v p c =
     (if mem_taken v p then Inl (VaultError ''File already exists.'')
      else if \<not> mem_folder_exists v (path_folder p)
      then Inl (VaultError ''Folder does not exist.'')
      else Inr (tfile_at p,
                v\<lparr>vfiles := vfiles v @
                     [\<lparr>current = p, earlier = [], contents = c, meta = None\<rparr>]\<rparr>))"

definition mem_rename :: "mem_vault \<Rightarrow> TFile \<Rightarrow> string \<Rightarrow> error + mem_vault" where
  "mem_rename v f p =
     (if mem_taken v p then Inl (VaultError ''Destination file already exists!'')
      else if \<not> mem_folder_exists v (path_folder p)
      then Inl (VaultError ''Folder does not exist.'')
      else if \<not> list_ex (denotes f) (vfiles v) then Inl (VaultError ''File not found.'')
      else Inr (v\<lparr>vfiles :=
                  map (\<lambda>e. if denotes f e
                           then e\<lparr>current := p, earlier := current e # earlier e\<rparr> else e)
                      (vfiles v)\<rparr>))"

definition mem_rewrite ::
  "mem_vault \<Rightarrow> TFile \<Rightarrow> (string \<Rightarrow> error + string) \<Rightarrow> error + mem_vault" where
  "mem_rewrite v f transform =
     (case find (denotes f) (vfiles v) of
        None \<Rightarrow> Inl (VaultError ''File not found.'')
      | Some e \<Rightarrow>
          (case transform (contents e) of
             Inl err \<Rightarrow> Inl err
           | Inr page \<Rightarrow>
               Inr (v\<lparr>vfiles :=
                      map (\<lambda>e. if denotes f e then e\<lparr>contents := page\<rparr> else e) (vfiles v)\<rparr>)))"

definition mem_delete :: "mem_vault \<Rightarrow> TFile \<Rightarrow> error + mem_vault" where
  "mem_delete v f =
     (if \<not> list_ex (denotes f) (vfiles v) then Inl (VaultError ''File not found.'')
      else Inr (v\<lparr>vfiles := filter (\<lambda>e. \<not> denotes f e) (vfiles v)\<rparr>))"

definition mem_app :: "mem_vault ObsidianInterface" where
  "mem_app =
     \<lparr>getAbstractFileByPath = mem_getAbstractFileByPath,
      getFileByPath = mem_getFileByPath,
      getRoot = mem_getRoot,
      getMetadata = mem_getMetadata,
      create = mem_create,
      rename = mem_rename,
      rewrite = mem_rewrite,
      delete = mem_delete\<rparr>"

text \<open>
  The vault of the examples: the note of the specification's scenario in folder \<open>A\<close>,
  a second note in the subfolder \<open>A/archive\<close>, and an empty folder \<open>B\<close>.
\<close>

definition standup :: OFCEvent where
  "standup =
     [(''title'', Some (PStr ''Standup'')), (''type'', Some (PStr ''single'')),
      (''date'', Some (PStr ''2024-01-10'')), (''startTime'', Some (PStr ''09:00'')),
      (''endTime'', None), (''allDay'', Some (PBool False))]"

definition retro :: OFCEvent where
  "retro =
     [(''title'', Some (PStr ''Retro'')), (''type'', Some (PStr ''recurring'')),
      (''daysOfWeek'', Some (PArr [EStr ''M'', EStr ''W''])), (''allDay'', Some (PBool True))]"

definition example_vault :: mem_vault where
  "example_vault =
     \<lparr>vfiles =
        [\<lparr>current = ''A/2024-01-10 Standup.md'', earlier = [], contents = [],
          meta = Some standup\<rparr>,
         \<lparr>current = ''A/archive/(Every M,W) Retro.md'', earlier = [], contents = [],
          meta = Some retro\<rparr>],
      vfolders = [''A'', ''A/archive'', ''B'']\<rparr>"

text \<open>Stand-ins for the three parameters that the examples do not exercise.\<close>

definition no_rrule :: "PrintableAtom option \<Rightarrow> error + string" where
  "no_rrule r = Inl (RRuleError ''Unsupported rule'')"

definition keep_page :: "string \<Rightarrow> OFCEvent \<Rightarrow> error + string" where
  "keep_page page ev = Inr page"

definition accept_frontmatter :: "OFCEvent option \<Rightarrow> OFCEvent option" where
  "accept_frontmatter fm = fm"

text \<open>
  A second vault for the examples: the first one with a further note in folder \<open>A\<close>,
  at the path that the standup would get under the title \<open>Daily\<close>.
\<close>

definition crowded_vault :: mem_vault where
  "crowded_vault =
     example_vault\<lparr>vfiles := vfiles example_vault @
        [\<lparr>current = ''A/2024-01-10 Daily.md'', earlier = [], contents = [], meta = None\<rparr>]\<rparr>"

text \<open>
  A stand-in for the rrule library that knows one rule and throws on every other text,
  and an event whose rule it does not know.
\<close>

definition weekly_rrule :: "PrintableAtom option \<Rightarrow> error + string" where
  "weekly_rrule r =
     (if r = Some (PStr ''FREQ=WEEKLY'') then Inr ''every week''
      else Inl (RRuleError ''Unknown RRULE property''))"

definition broken_rule :: OFCEvent where
  "broken_rule =
     [(''title'', Some (PStr ''Review'')), (''type'', Some (PStr ''rrule'')),
      (''rrule'', Some (PStr ''every other week'')), (''startDate'', Some (PStr ''2024-01-10'')),
      (''allDay'', Some (PBool True))]"

text \<open>The files among the children of a folder.\<close>

fun child_files :: "TAbstractFile list \<Rightarrow> TFile list" where
  "child_files [] = []"
| "child_files (AFile f # cs) = f # child_files cs"
| "child_files (AFolder p xs # cs) = child_files cs"

section \<open>Google calendar (src/calendars/GoogleCalendar.ts)\<close>

text \<open>
  What \<open>response.json\<close> holds is whatever the network delivered: the interfaces
  \<open>GoogleEventsListResponse\<close> and \<open>GoogleEvent\<close> are annotations that nothing checks
  at run time. A page and its events are therefore JavaScript values, and
  \<open>revalidate\<close> reads them as the language does.
\<close>

datatype gcal_error =
    AuthError string
  | RequestError string
  | ApiError jsval
  | ResponseTypeError

text \<open>Truthiness, as \<open>if (v)\<close> and \<open>while (v)\<close> read a value.\<close>

fun js_truthy :: "jsval \<Rightarrow> bool" where
  "js_truthy JUndefined = False"
| "js_truthy JNull = False"
| "js_truthy (JBool b) = b"
| "js_truthy (JNum n) = (n \<noteq> 0)"
| "js_truthy (JStr s) = (s \<noteq> [])"
| "js_truthy (JArr xs) = True"
| "js_truthy (JObj fs) = True"

text \<open>
  The property access \<open>v.k\<close> for the keys read here (\<open>error\<close>, \<open>message\<close>, \<open>items\<close>,
  \<open>nextPageToken\<close>, \<open>status\<close>): a \<open>TypeError\<close> on \<open>undefined\<close> and \<open>null\<close>, the entry
  of an object, and \<open>undefined\<close> on every other value.
\<close>

fun js_member :: "jsval \<Rightarrow> string \<Rightarrow> gcal_error + jsval" where
  "js_member JUndefined k = Inl ResponseTypeError"
| "js_member JNull k = Inl ResponseTypeError"
| "js_member (JObj fs) k = Inr (js_get fs k)"
| "js_member v k = Inr JUndefined"

text \<open>
  The request that one turn of the loop builds: the calendar, the fixed query
  parameters, the time window (computed from the clock before the loop, here given),
  the page token when it is truthy, and the bearer token.
\<close>

record request =
  req_calendarId :: string
  req_maxResults :: string
  req_singleEvents :: string
  req_timeMin :: string
  req_timeMax :: string
  req_pageToken :: "jsval option"
  req_bearer :: string

record GoogleCalendar =
  calendarId :: string
  calendarName :: string
  events :: "jsval list"

definition make_request ::
  "GoogleCalendar \<Rightarrow> string \<Rightarrow> string \<Rightarrow> string \<Rightarrow> jsval \<Rightarrow> request" where
  "make_request cal token timeMin timeMax pageToken =
     \<lparr>req_calendarId = calendarId cal, req_maxResults = ''2500'',
      req_singleEvents = ''false'', req_timeMin = timeMin, req_timeMax = timeMax,
      req_pageToken = (if js_truthy pageToken then Some pageToken else None),
      req_bearer = token\<rparr>"

text \<open>
  \<open>items.filter((e) => e.status !== "cancelled")\<close> on the elements of an array: the
  access \<open>e.status\<close> throws on an element that is \<open>null\<close>.
\<close>

fun not_cancelled :: "jsval list \<Rightarrow> gcal_error + jsval list" where
  "not_cancelled [] = Inr []"
| "not_cancelled (e # es) =
     (case js_member e ''status'' of
        Inl err \<Rightarrow> Inl err
      | Inr st \<Rightarrow>
          (case not_cancelled es of
             Inl err \<Rightarrow> Inl err
           | Inr kept \<Rightarrow> Inr (if st \<noteq> JStr ''cancelled'' then e # kept else kept)))"

text \<open>
  \<open>data.items.filter(...)\<close> when \<open>data.items\<close> is truthy: only an array has the method;
  on any other truthy value the call throws a \<open>TypeError\<close>.
\<close>

fun filter_items :: "jsval \<Rightarrow> gcal_error + jsval list" where
  "filter_items (JArr xs) = not_cancelled xs"
| "filter_items v = Inl ResponseTypeError"

text \<open>
  The body of the loop after the request, lines 118 to 130: it throws when \<open>data.error\<close>
  is truthy (the error carries \<open>data.error.message\<close>), and otherwise yields the events
  to push onto \<open>allEvents\<close> and the value of \<open>data.nextPageToken\<close>.
\<close>

definition read_page :: "jsval \<Rightarrow> gcal_error + jsval list \<times> jsval" where
  "read_page data =
     (case js_member data ''error'' of
        Inl err \<Rightarrow> Inl err
      | Inr error \<Rightarrow>
          if js_truthy error then
            (case js_member error ''message'' of
               Inl err \<Rightarrow> Inl err
             | Inr message \<Rightarrow> Inl (ApiError message))
          else
            (case js_member data ''items'' of
               Inl err \<Rightarrow> Inl err
             | Inr items \<Rightarrow>
                 (case (if js_truthy items then filter_items items else Inr []) of
                    Inl err \<Rightarrow> Inl err
                  | Inr kept \<Rightarrow>
                      (case js_member data ''nextPageToken'' of
                         Inl err \<Rightarrow> Inl err
                       | Inr pageToken \<Rightarrow> Inr (kept, pageToken)))))"

text \<open>
  The \<open>do ... while (pageToken)\<close> loop. \<open>requestUrl\<close> is the network: from the state
  of the remote side it either throws or answers with a value, and moves to the next
  state. The loop runs as long as the answers carry a truthy \<open>nextPageToken\<close>; a
  remote side that always sends one keeps it running forever, which is the value
  \<open>None\<close>.
\<close>

partial_function (option) fetch_pages ::
  "('srv \<Rightarrow> request \<Rightarrow> (gcal_error + jsval) \<times> 'srv) \<Rightarrow>
   (jsval \<Rightarrow> request) \<Rightarrow> jsval list \<Rightarrow> jsval \<Rightarrow> 'srv \<Rightarrow>
   ((gcal_error + jsval list) \<times> 'srv) option" where
  "fetch_pages requestUrl mk allEvents pageToken srv =
     (case requestUrl srv (mk pageToken) of
        (Inl e, srv') \<Rightarrow> Some (Inl e, srv')
      | (Inr data, srv') \<Rightarrow>
          (case read_page data of
             Inl e \<Rightarrow> Some (Inl e, srv')
           | Inr (kept, nextPageToken) \<Rightarrow>
               if js_truthy nextPageToken
               then fetch_pages requestUrl mk (allEvents @ kept) nextPageToken srv'
               else Some (Inr (allEvents @ kept), srv')))"

declare fetch_pages.simps [code]

text \<open>
  \<open>revalidate\<close>. \<open>getValidAccessToken\<close> is the outcome of the call on the auth
  service. The result pairs what the promise settles with and the calendar afterwards.
\<close>

definition revalidate ::
  "('srv \<Rightarrow> request \<Rightarrow> (gcal_error + jsval) \<times> 'srv) \<Rightarrow>
   (gcal_error + string) \<Rightarrow> string \<Rightarrow> string \<Rightarrow> GoogleCalendar \<Rightarrow> 'srv \<Rightarrow>
   (((gcal_error + unit) \<times> GoogleCalendar) \<times> 'srv) option" where
  "revalidate requestUrl getValidAccessToken timeMin timeMax cal srv =
     (case getValidAccessToken of
        Inl e \<Rightarrow> Some ((Inl e, cal), srv)
      | Inr token \<Rightarrow>
          (case fetch_pages requestUrl (make_request cal token timeMin timeMax) []
                  JUndefined srv of
             None \<Rightarrow> None
           | Some (Inl e, srv') \<Rightarrow> Some ((Inl e, cal), srv')
           | Some (Inr allEvents, srv') \<Rightarrow> Some ((Inr (), cal\<lparr>events := allEvents\<rparr>), srv')))"

text \<open>
  The pages of a fetch that succeeds, as a relation: from the remote state \<open>srv\<close> and
  the page token \<open>pt\<close>, the answers \<open>pages\<close> arrive one after the other, none of them
  makes the loop body throw, each but the last names a next page, and the remote side
  is left in \<open>srv'\<close>. \<open>kept_items\<close> are the events that a page contributes.
\<close>

definition kept_items :: "jsval \<Rightarrow> jsval list" where
  "kept_items data = (case read_page data of Inl e \<Rightarrow> [] | Inr (kept, pageToken) \<Rightarrow> kept)"

inductive fetched ::
  "('srv \<Rightarrow> request \<Rightarrow> (gcal_error + jsval) \<times> 'srv) \<Rightarrow>
   (jsval \<Rightarrow> request) \<Rightarrow> 'srv \<Rightarrow> jsval \<Rightarrow> jsval list \<Rightarrow> 'srv \<Rightarrow> bool"
  for requestUrl mk where
    last_page:
      "requestUrl srv (mk pt) = (Inr data, srv') \<Longrightarrow>
       read_page data = Inr (kept, nextPageToken) \<Longrightarrow> \<not> js_truthy nextPageToken \<Longrightarrow>
       fetched requestUrl mk srv pt [data] srv'"
  | next_page:
      "requestUrl srv (mk pt) = (Inr data, srv1) \<Longrightarrow>
       read_page data = Inr (kept, nextPageToken) \<Longrightarrow> js_truthy nextPageToken \<Longrightarrow>
       fetched requestUrl mk srv1 nextPageToken pages srv' \<Longrightarrow>
       fetched requestUrl mk srv pt (data # pages) srv'"

text \<open>
  A remote side for the examples: its state counts the requests served. The first page
  holds a confirmed and a cancelled event and names the page \<open>p2\<close>. In the sound
  variant the second page holds one more event; in the other variants it carries an
  error with a message, an error that is a bare string, or a list of items with a
  \<open>null\<close> in it.
\<close>

definition gevent :: "string \<Rightarrow> jsval \<Rightarrow> jsval" where
  "gevent i st = JObj [(''id'', JStr i), (''summary'', JStr i), (''status'', st)]"

datatype second_page = Sound | ErrorWithMessage | ErrorString | NullItem

definition two_pages ::
  "second_page \<Rightarrow> nat \<Rightarrow> request \<Rightarrow> (gcal_error + jsval) \<times> nat" where
  "two_pages variant n rq =
     (if req_pageToken rq = None then
        (Inr (JObj [(''items'', JArr [gevent ''a'' (JStr ''confirmed''),
                                      gevent ''b'' (JStr ''cancelled'')]),
                    (''nextPageToken'', JStr ''p2'')]), Suc n)
      else
        (case variant of
           Sound \<Rightarrow> (Inr (JObj [(''items'', JArr [gevent ''c'' JUndefined])]), Suc n)
         | ErrorWithMessage \<Rightarrow>
             (Inr (JObj [(''error'', JObj [(''message'', JStr ''Rate Limit Exceeded'')])]),
              Suc n)
         | ErrorString \<Rightarrow>
             (Inr (JObj [(''error'', JStr ''blocked''),
                         (''items'', JArr [gevent ''c'' JUndefined])]), Suc n)
         | NullItem \<Rightarrow> (Inr (JObj [(''items'', JArr [JNull])]), Suc n)))"

definition old_calendar :: GoogleCalendar where
  "old_calendar =
     \<lparr>calendarId = ''primary'', calendarName = ''Work'',
      events = [gevent ''z'' (JStr ''confirmed'')]\<rparr>"

section \<open>The event form (src/ui/components/EditEvent.tsx)\<close>

text \<open>
  What \<open>performSave\<close> reads and writes outside its arguments: the latch
  \<open>hasCreatedRef.current\<close>, and the calls of \<open>submit\<close> made so far, each with its event
  data and calendar index. \<open>performSave\<close> is asynchronous: it runs up to the call of
  \<open>submit\<close> and is resumed when the promise of that call settles; \<open>awaiting\<close> counts the
  calls of \<open>performSave\<close> that are suspended there.
\<close>

record modal =
  hasCreated :: bool
  submit_calls :: "(OFCEvent \<times> nat) list"
  awaiting :: nat

definition initial_modal :: modal where
  "initial_modal = \<lparr>hasCreated = False, submit_calls = [], awaiting = 0\<rparr>"

text \<open>\<open>{...base, ...overrides}\<close>: the entries of \<open>overrides\<close> are assigned onto \<open>base\<close> in order.\<close>

definition spread :: "OFCEvent \<Rightarrow> OFCEvent \<Rightarrow> OFCEvent" where
  "spread base overrides = foldl (\<lambda>obj (k, v). set_prop obj k v) base overrides"

text \<open>
  The synchronous part of \<open>performSave(overrides)\<close>. \<open>base\<close> is what \<open>getEventData()\<close>
  returns from the form at the time of the call, \<open>date\<close> the \<open>date\<close> state of the form
  (a string or \<open>undefined\<close>), \<open>calendarIndex\<close> the selected calendar.
\<close>

definition performSave ::
  "bool \<Rightarrow> OFCEvent \<Rightarrow> string option \<Rightarrow> nat \<Rightarrow> OFCEvent option \<Rightarrow> modal \<Rightarrow> modal" where
  "performSave isCreate base date calendarIndex overrides m =
     (let data = (case overrides of None \<Rightarrow> base | Some ov \<Rightarrow> spread base ov)
      in if isCreate \<and> \<not> truthy (get_prop data ''title'') then m
         else if isCreate \<and> (date = None \<or> date = Some []) then m
         else if isCreate \<and> hasCreated m then m
         else m\<lparr>submit_calls := submit_calls m @ [(data, calendarIndex)],
                awaiting := Suc (awaiting m)\<rparr>)"

text \<open>
  The things that happen to an open form, one at a time: a call of \<open>performSave\<close> (from
  the auto-save timer, from the submission of the form, or from the hook that runs
  before the modal closes), the call of \<open>markCreated\<close> by a \<open>submit\<close> that received it,
  and the settling of the promise of a \<open>submit\<close> call, which resumes the suspended
  \<open>performSave\<close>: after a fulfilled promise the latch is set in create mode, after a
  rejected one the handler does nothing.
\<close>

datatype form_event =
    PerformSave OFCEvent "string option" nat "OFCEvent option"
  | MarkCreated
  | SubmitFulfilled
  | SubmitRejected

fun form_step :: "bool \<Rightarrow> modal \<Rightarrow> form_event \<Rightarrow> modal" where
  "form_step isCreate m (PerformSave base date calendarIndex overrides) =
     performSave isCreate base date calendarIndex overrides m"
| "form_step isCreate m MarkCreated =
     (if submit_calls m \<noteq> [] then m\<lparr>hasCreated := True\<rparr> else m)"
| "form_step isCreate m SubmitFulfilled =
     (if awaiting m > 0
      then m\<lparr>awaiting := awaiting m - 1, hasCreated := (isCreate \<or> hasCreated m)\<rparr>
      else m)"
| "form_step isCreate m SubmitRejected =
     (if awaiting m > 0 then m\<lparr>awaiting := awaiting m - 1\<rparr> else m)"

definition form_run :: "bool \<Rightarrow> modal \<Rightarrow> form_event list \<Rightarrow> modal" where
  "form_run isCreate m es = foldl (form_step isCreate) m es"

text \<open>
  A sequence of saves in which nothing overlaps and nothing fails: every call of
  \<open>performSave\<close>, given by its arguments, is followed at once by the fulfilment of
  its \<open>submit\<close>, if it made one.
\<close>

definition one_at_a_time ::
  "(OFCEvent \<times> string option \<times> nat \<times> OFCEvent option) list \<Rightarrow> form_event list" where
  "one_at_a_time saves =
     concat (map (\<lambda>(base, date, calendarIndex, overrides).
                    [PerformSave base date calendarIndex overrides, SubmitFulfilled]) saves)"

text \<open>
  The states between two such saves: no call is suspended, and \<open>submit\<close> has been
  called at most once if the latch is set and never if it is not.
\<close>

definition settled :: "modal \<Rightarrow> bool" where
  "settled m =
     (awaiting m = 0 \<and>
      (if hasCreated m then length (submit_calls m) \<le> 1 else submit_calls m = []))"

section \<open>Parsing of calendar descriptors\<close>

lemma z_string_Inr: "z_string v = Inr s \<longleftrightarrow> v = JStr s"
  by (cases v) auto

lemma z_string_url_Inr: "z_string_url is_url v = Inr s \<longleftrightarrow> v = JStr s \<and> is_url s"
  by (cases v) auto

lemma zbind_Inr: "zbind r f = Inr y \<longleftrightarrow> (\<exists>x. r = Inr x \<and> f x = Inr y)"
  by (cases r) (auto simp: zbind_def)

lemma calendarOptionsSchema_Inr:
  "calendarOptionsSchema is_url obj = Inr opts \<longleftrightarrow>
     (\<exists>fs. obj = JObj fs \<and> describes is_url fs opts)"
proof (cases obj)
  case (JObj fs)
  show ?thesis
  proof (cases "js_get fs ''type''")
    case (JStr t)
    then show ?thesis using JObj
      by (cases opts)
         (auto simp: describes_def local_schema_def dailynote_schema_def ical_schema_def
            caldav_schema_def gcal_schema_def zbind_Inr z_string_Inr z_string_url_Inr)
  qed (use JObj in \<open>cases opts; simp add: describes_def\<close>)+
qed simp_all

lemma colorValidator_Inr:
  "colorValidator obj = Inr c \<longleftrightarrow> (\<exists>fs. obj = JObj fs \<and> js_get fs ''color'' = JStr c)"
  by (cases obj) (auto simp: z_string_Inr)

text \<open>
  Claim C5. \<open>safeParseCalendarInfo\<close> has no error result: for every input it returns
  either a descriptor or \<open>null\<close>. It returns the descriptor \<open>info\<close> exactly when the
  input is an object that conforms to the schema of one of the five variants (local,
  dailynote, ical, caldav, gcal) with the field values of \<open>options info\<close> and whose
  \<open>color\<close> key holds the string \<open>color info\<close>; every other input gives \<open>null\<close>.
\<close>

theorem safeParseCalendarInfo_spec:
  "safeParseCalendarInfo is_url obj = Some info \<longleftrightarrow>
     (\<exists>fs. obj = JObj fs \<and> describes is_url fs (options info) \<and>
           js_get fs ''color'' = JStr (color info))"
proof -
  have "safeParseCalendarInfo is_url obj = Some info \<longleftrightarrow>
        parseCalendarInfo is_url obj = Inr info"
    by (simp add: safeParseCalendarInfo_def split: sum.splits)
  also have "\<dots> \<longleftrightarrow> (\<exists>opts c. calendarOptionsSchema is_url obj = Inr opts \<and>
      colorValidator obj = Inr c \<and> info = \<lparr>options = opts, color = c\<rparr>)"
    by (auto simp: parseCalendarInfo_def zbind_Inr)
  also have "\<dots> \<longleftrightarrow> (\<exists>fs. obj = JObj fs \<and> describes is_url fs (options info) \<and>
           js_get fs ''color'' = JStr (color info))"
    unfolding calendarOptionsSchema_Inr colorValidator_Inr
    by (cases info) auto
  finally show ?thesis .
qed

theorem safeParseCalendarInfo_spec_witness:
  "safeParseCalendarInfo (\<lambda>u. True)
     (JObj [(''type'', JStr ''gcal''), (''calendarId'', JStr ''primary''),
            (''name'', JStr ''Work''), (''color'', JStr ''#3788d8''), (''extra'', JNum 1)])
   = Some \<lparr>options = GCal ''primary'' ''Work'', color = ''#3788d8''\<rparr>"
  by (rule iffD2 [OF safeParseCalendarInfo_spec]) (simp add: describes_def js_get_def)

section \<open>Persistence of the settings\<close>

text \<open>
  Claim C8. When \<open>saveData\<close> is called with an object that has a \<open>calendarSources\<close> key,
  two plugin states whose settings differ only in \<open>googleRefreshToken\<close>,
  \<open>googleAccessToken\<close> and \<open>googleTokenExpiry\<close> persist the same data, and the persisted
  data is the settings object with both tokens empty and the expiry 0.
\<close>

theorem saveData_blanks_tokens:
  assumes "has_calendarSources data"
    and "settings p' =
         (settings p)\<lparr>googleRefreshToken := r, googleAccessToken := a, googleTokenExpiry := x\<rparr>"
  shows "disk (saveData p' data) = disk (saveData p data) \<and>
         (\<exists>s. disk (saveData p data) = Some (SavedSettings s) \<and>
              googleRefreshToken s = '''' \<and> googleAccessToken s = '''' \<and>
              googleTokenExpiry s = 0 \<and>
              s = (settings p)\<lparr>googleRefreshToken := '''', googleAccessToken := '''',
                                googleTokenExpiry := 0\<rparr>)"
  using assms by (simp add: saveData_def getSettingsForSave_def)

theorem saveData_blanks_tokens_witness:
  "has_calendarSources (JObj [(''calendarSources'', JArr []), (''googleRefreshToken'', JStr ''1//secret'')]) \<and>
   disk (saveData
          \<lparr>settings = DEFAULT_SETTINGS\<lparr>googleRefreshToken := ''1//secret'',
               googleAccessToken := ''ya29.token'', googleTokenExpiry := 1700000000\<rparr>,
           disk = None\<rparr>
          (JObj [(''calendarSources'', JArr []), (''googleRefreshToken'', JStr ''1//secret'')]))
   = Some (SavedSettings DEFAULT_SETTINGS)"
proof -
  let ?d = "JObj [(''calendarSources'', JArr []), (''googleRefreshToken'', JStr ''1//secret'')]"
  let ?p = "\<lparr>settings = DEFAULT_SETTINGS, disk = None\<rparr> :: unit plugin"
  let ?p' = "\<lparr>settings = DEFAULT_SETTINGS\<lparr>googleRefreshToken := ''1//secret'',
               googleAccessToken := ''ya29.token'', googleTokenExpiry := 1700000000\<rparr>,
           disk = None\<rparr> :: unit plugin"
  have h: "has_calendarSources ?d" by (simp add: js_has_key_def)
  have s: "settings ?p' = (settings ?p)\<lparr>googleRefreshToken := ''1//secret'',
               googleAccessToken := ''ya29.token'', googleTokenExpiry := 1700000000\<rparr>"
    by simp
  from saveData_blanks_tokens [OF h s]
  have "disk (saveData ?p' ?d) = disk (saveData ?p ?d)"
    and "\<exists>s. disk (saveData ?p ?d) = Some (SavedSettings s) \<and>
          s = (settings ?p)\<lparr>googleRefreshToken := '''', googleAccessToken := '''',
                                googleTokenExpiry := 0\<rparr>"
    by blast+
  then have "disk (saveData ?p' ?d) = Some (SavedSettings DEFAULT_SETTINGS)"
    by (auto simp: DEFAULT_SETTINGS_def)
  with h show ?thesis by blast
qed

section \<open>Routing of file-system notifications\<close>

text \<open>
  Claim C7. Every notification leads to at most one cache call: a changed file to
  \<open>fileUpdated\<close> with that file, a renamed file to \<open>deleteEventsAtPath\<close> with the old
  path (whatever the new path is), a deleted file to \<open>deleteEventsAtPath\<close> with the
  file's path, and the rename or deletion of a folder to no cache call.
\<close>

theorem on_notification_routing:
  "on_notification (Changed f) = [FileUpdated f] \<and>
   on_notification (Renamed (EntryFile newPath) oldPath) = [DeleteEventsAtPath oldPath] \<and>
   on_notification (Deleted (EntryFile p)) = [DeleteEventsAtPath p] \<and>
   on_notification (Renamed (EntryFolder q) oldPath) = [] \<and>
   on_notification (Deleted (EntryFolder q)) = [] \<and>
   length (on_notification n) \<le> 1"
  by (cases n rule: on_notification.cases) simp_all

section \<open>The note calendar: rejections\<close>

text \<open>
  Claim C3. \<open>modifyEvent\<close>, \<open>move\<close> and \<open>deleteEvent\<close> reject when no file exists at
  the normalised path of the location; \<open>move\<close> and \<open>deleteEvent\<close> reject when the
  location carries a line number; \<open>move\<close> rejects when the destination is not a
  \<open>FullNoteCalendar\<close>. In each of these cases the world is returned as it was: no
  call of create, rename, rewrite or delete and no call of the callback is recorded,
  and the vault is unchanged.
\<close>

theorem rejections_have_no_effect:
  "(getFileByPath app (vault w) (normalizeVaultPath (loc_path loc)) = None \<longrightarrow>
      (\<exists>e. modifyEvent app rr mfs loc ev w = (Inl e, w)) \<and>
      (\<exists>e. move app loc cal w = (Inl e, w)) \<and>
      (\<exists>e. deleteEvent app loc w = (Inl e, w))) \<and>
   (loc_lineNumber loc \<noteq> None \<longrightarrow>
      (\<exists>e. move app loc cal w = (Inl e, w)) \<and>
      (\<exists>e. deleteEvent app loc w = (Inl e, w))) \<and>
   ((\<forall>d. cal \<noteq> FullNoteCalendar d) \<longrightarrow> (\<exists>e. move app loc cal w = (Inl e, w)))"
  by (cases cal) (auto simp: modifyEvent_def move_def deleteEvent_def Let_def)

theorem rejections_have_no_effect_witness:
  "getFileByPath mem_app example_vault (normalizeVaultPath ''/A/missing.md'') = None \<and>
   modifyEvent mem_app no_rrule keep_page \<lparr>loc_path = ''/A/missing.md'', loc_lineNumber = None\<rparr>
     standup \<lparr>vault = example_vault, trace = []\<rparr>
     = (Inl (FileMissing ''/A/missing.md''), \<lparr>vault = example_vault, trace = []\<rparr>) \<and>
   move mem_app \<lparr>loc_path = ''/A/missing.md'', loc_lineNumber = None\<rparr> (FullNoteCalendar ''B'')
     \<lparr>vault = example_vault, trace = []\<rparr>
     = (Inl (FileMissing ''A/missing.md''), \<lparr>vault = example_vault, trace = []\<rparr>) \<and>
   deleteEvent mem_app \<lparr>loc_path = ''/A/missing.md'', loc_lineNumber = None\<rparr>
     \<lparr>vault = example_vault, trace = []\<rparr>
     = (Inl (FileMissing ''A/missing.md''), \<lparr>vault = example_vault, trace = []\<rparr>) \<and>
   move mem_app \<lparr>loc_path = ''A/2024-01-10 Standup.md'', loc_lineNumber = Some 3\<rparr>
     (FullNoteCalendar ''B'') \<lparr>vault = example_vault, trace = []\<rparr>
     = (Inl InlineNotSupported, \<lparr>vault = example_vault, trace = []\<rparr>) \<and>
   deleteEvent mem_app \<lparr>loc_path = ''A/2024-01-10 Standup.md'', loc_lineNumber = Some 3\<rparr>
     \<lparr>vault = example_vault, trace = []\<rparr>
     = (Inl InlineNotSupported, \<lparr>vault = example_vault, trace = []\<rparr>) \<and>
   move mem_app \<lparr>loc_path = ''A/2024-01-10 Standup.md'', loc_lineNumber = None\<rparr>
     (DailyNoteCalendar ''Events'') \<lparr>vault = example_vault, trace = []\<rparr>
     = (Inl (WrongCalendarType ''dailynote''), \<lparr>vault = example_vault, trace = []\<rparr>)"
proof -
  let ?w = "\<lparr>vault = example_vault, trace = []\<rparr>"
  let ?gone = "\<lparr>loc_path = ''/A/missing.md'', loc_lineNumber = None\<rparr>"
  let ?inline = "\<lparr>loc_path = ''A/2024-01-10 Standup.md'', loc_lineNumber = Some 3\<rparr>"
  let ?whole = "\<lparr>loc_path = ''A/2024-01-10 Standup.md'', loc_lineNumber = None\<rparr>"
  have missing: "getFileByPath mem_app (vault ?w) (normalizeVaultPath (loc_path ?gone)) = None"
    by code_simp
  have inline: "loc_lineNumber ?inline \<noteq> None" by simp
  have other: "\<forall>d. DailyNoteCalendar ''Events'' \<noteq> FullNoteCalendar d" by simp
  from rejections_have_no_effect [of mem_app ?w ?gone no_rrule keep_page standup "FullNoteCalendar ''B''"] missing
  obtain e1 e2 e3 where
    "modifyEvent mem_app no_rrule keep_page ?gone standup ?w = (Inl e1, ?w)"
    "move mem_app ?gone (FullNoteCalendar ''B'') ?w = (Inl e2, ?w)"
    "deleteEvent mem_app ?gone ?w = (Inl e3, ?w)"
    by blast
  moreover
  from rejections_have_no_effect [of mem_app ?w ?inline no_rrule keep_page standup "FullNoteCalendar ''B''"] inline
  obtain e4 e5 where
    "move mem_app ?inline (FullNoteCalendar ''B'') ?w = (Inl e4, ?w)"
    "deleteEvent mem_app ?inline ?w = (Inl e5, ?w)"
    by blast
  moreover
  from rejections_have_no_effect [of mem_app ?w ?whole no_rrule keep_page standup "DailyNoteCalendar ''Events''"] other
  obtain e6 where "move mem_app ?whole (DailyNoteCalendar ''Events'') ?w = (Inl e6, ?w)"
    by blast
  moreover have "fst (modifyEvent mem_app no_rrule keep_page ?gone standup ?w) = Inl (FileMissing ''/A/missing.md'')"
    by code_simp
  moreover have "fst (move mem_app ?gone (FullNoteCalendar ''B'') ?w) = Inl (FileMissing ''A/missing.md'')"
    by code_simp
  moreover have "fst (deleteEvent mem_app ?gone ?w) = Inl (FileMissing ''A/missing.md'')"
    by code_simp
  moreover have "fst (move mem_app ?inline (FullNoteCalendar ''B'') ?w) = Inl InlineNotSupported"
    by code_simp
  moreover have "fst (deleteEvent mem_app ?inline ?w) = Inl InlineNotSupported"
    by code_simp
  moreover have "fst (move mem_app ?whole (DailyNoteCalendar ''Events'') ?w) = Inl (WrongCalendarType ''dailynote'')"
    by code_simp
  ultimately show ?thesis using missing by simp
qed

section \<open>The note calendar: modifying an event\<close>

text \<open>
  Claim C2, amended. For a whole-file location whose normalised path resolves to a
  file: when \<open>getNewLocation\<close> returns a location for the updated event,
  \<open>modifyEvent\<close> calls the callback exactly once, with exactly that location, as its
  first effect and before the rename is attempted. The rename is issued only when the
  computed path differs from the file's current path, and its destination is the path
  just handed to the callback, so that after a rename that succeeds the cache holds the
  file's new path. The rewrite of the file follows, on the vault as the rename left it,
  and its outcome is the outcome of \<open>modifyEvent\<close>; when the rename throws,
  \<open>modifyEvent\<close> rejects with what it threw, without a rewrite. When
  \<open>getNewLocation\<close> throws, \<open>modifyEvent\<close> rejects with no call of the callback and
  no effect on the vault.
\<close>

theorem modifyEvent_updates_cache_once:
  assumes "loc_lineNumber loc = None"
    and "getFileByPath app (vault w) (normalizeVaultPath (loc_path loc)) = Some f"
  shows "(\<forall>e. getNewLocation app rr (vault w) loc ev = Inl e \<longrightarrow>
            modifyEvent app rr mfs loc ev w = (Inl e, w)) \<and>
         (\<forall>newLocation. getNewLocation app rr (vault w) loc ev = Inr newLocation \<longrightarrow>
            (let called = trace w @ [UpdateCacheWithLocation newLocation];
                 target = path (file newLocation);
                 rewritten = (\<lambda>v t.
                    case rewrite app v f (\<lambda>page. mfs page ev) of
                      Inl e \<Rightarrow> (Inl e, \<lparr>vault = v, trace = t @ [Rewrite f]\<rparr>)
                    | Inr v' \<Rightarrow> (Inr (), \<lparr>vault = v', trace = t @ [Rewrite f]\<rparr>))
             in modifyEvent app rr mfs loc ev w =
                  (if path f = target then rewritten (vault w) called
                   else
                     case rename app (vault w) f target of
                       Inl e \<Rightarrow> (Inl e, \<lparr>vault = vault w, trace = called @ [Rename f target]\<rparr>)
                     | Inr v' \<Rightarrow> rewritten v' (called @ [Rename f target]))))"
  using assms
  by (auto simp: modifyEvent_def Let_def call_updateCacheWithLocation_def call_rename_def
        call_rewrite_def split: sum.splits prod.splits)

theorem modifyEvent_updates_cache_once_witness:
  "loc_lineNumber \<lparr>loc_path = ''A/2024-01-10 Standup.md'', loc_lineNumber = None\<rparr> = None \<and>
   getFileByPath mem_app example_vault
     (normalizeVaultPath ''A/2024-01-10 Standup.md'') =
     Some (tfile_at ''A/2024-01-10 Standup.md'') \<and>
   fst (modifyEvent mem_app no_rrule keep_page
          \<lparr>loc_path = ''A/2024-01-10 Standup.md'', loc_lineNumber = None\<rparr>
          (set_prop standup ''title'' (Some (PStr ''Daily'')))
          \<lparr>vault = example_vault, trace = []\<rparr>) = Inr () \<and>
   trace (snd (modifyEvent mem_app no_rrule keep_page
                 \<lparr>loc_path = ''A/2024-01-10 Standup.md'', loc_lineNumber = None\<rparr>
                 (set_prop standup ''title'' (Some (PStr ''Daily'')))
                 \<lparr>vault = example_vault, trace = []\<rparr>)) =
     [UpdateCacheWithLocation \<lparr>file = \<lparr>path = ''A/2024-01-10 Daily.md''\<rparr>, lineNumber = None\<rparr>,
      Rename (tfile_at ''A/2024-01-10 Standup.md'') ''A/2024-01-10 Daily.md'',
      Rewrite (tfile_at ''A/2024-01-10 Standup.md'')] \<and>
   map current (vfiles (vault (snd (modifyEvent mem_app no_rrule keep_page
                 \<lparr>loc_path = ''A/2024-01-10 Standup.md'', loc_lineNumber = None\<rparr>
                 (set_prop standup ''title'' (Some (PStr ''Daily'')))
                 \<lparr>vault = example_vault, trace = []\<rparr>)))) =
     [''A/2024-01-10 Daily.md'', ''A/archive/(Every M,W) Retro.md''] \<and>
   trace (snd (modifyEvent mem_app no_rrule keep_page
                 \<lparr>loc_path = ''A/2024-01-10 Standup.md'', loc_lineNumber = None\<rparr>
                 (set_prop standup ''startTime'' (Some (PStr ''10:00'')))
                 \<lparr>vault = example_vault, trace = []\<rparr>)) =
     [UpdateCacheWithLocation \<lparr>file = \<lparr>path = ''A/2024-01-10 Standup.md''\<rparr>, lineNumber = None\<rparr>,
      Rewrite (tfile_at ''A/2024-01-10 Standup.md'')] \<and>
   modifyEvent mem_app weekly_rrule keep_page
     \<lparr>loc_path = ''A/2024-01-10 Standup.md'', loc_lineNumber = None\<rparr> broken_rule
     \<lparr>vault = example_vault, trace = []\<rparr> =
     (Inl (RRuleError ''Unknown RRULE property''), \<lparr>vault = example_vault, trace = []\<rparr>)"
proof -
  let ?loc = "\<lparr>loc_path = ''A/2024-01-10 Standup.md'', loc_lineNumber = None\<rparr>"
  let ?w = "\<lparr>vault = example_vault, trace = []\<rparr>"
  let ?f = "tfile_at ''A/2024-01-10 Standup.md''"
  let ?retitled = "set_prop standup ''title'' (Some (PStr ''Daily''))"
  let ?retimed = "set_prop standup ''startTime'' (Some (PStr ''10:00''))"
  let ?rename = "rename mem_app example_vault ?f ''A/2024-01-10 Daily.md''"
  let ?rewrite = "rewrite mem_app (projr ?rename) ?f (\<lambda>page. keep_page page ?retitled)"
  have whole: "loc_lineNumber ?loc = None" by simp
  have found: "getFileByPath mem_app (vault ?w) (normalizeVaultPath (loc_path ?loc)) = Some ?f"
    by code_simp
  have new1: "getNewLocation mem_app no_rrule (vault ?w) ?loc ?retitled =
                Inr \<lparr>file = \<lparr>path = ''A/2024-01-10 Daily.md''\<rparr>, lineNumber = None\<rparr>"
    by code_simp
  have new2: "getNewLocation mem_app no_rrule (vault ?w) ?loc ?retimed =
                Inr \<lparr>file = \<lparr>path = ''A/2024-01-10 Standup.md''\<rparr>, lineNumber = None\<rparr>"
    by code_simp
  have new3: "getNewLocation mem_app weekly_rrule (vault ?w) ?loc broken_rule =
                Inl (RRuleError ''Unknown RRULE property'')"
    by code_simp
  have differs: "path ?f \<noteq> ''A/2024-01-10 Daily.md''" by code_simp
  have same: "path ?f = ''A/2024-01-10 Standup.md''" by code_simp
  have "isl ?rename = False" by code_simp
  then obtain v1 where renamed: "?rename = Inr v1" by (cases ?rename) auto
  have "isl ?rewrite = False" by code_simp
  with renamed obtain v2 where
    rewritten1: "rewrite mem_app v1 ?f (\<lambda>page. keep_page page ?retitled) = Inr v2"
    by (cases "rewrite mem_app v1 ?f (\<lambda>page. keep_page page ?retitled)") auto
  have "map current (vfiles (projr ?rewrite)) =
          [''A/2024-01-10 Daily.md'', ''A/archive/(Every M,W) Retro.md'']"
    by code_simp
  with renamed rewritten1
  have now: "map current (vfiles v2) =
               [''A/2024-01-10 Daily.md'', ''A/archive/(Every M,W) Retro.md'']"
    by simp
  have rewritten2: "isl (rewrite mem_app example_vault ?f (\<lambda>page. keep_page page ?retimed)) = False"
    by code_simp
  note all = modifyEvent_updates_cache_once [OF whole found]
  from all [where rr = no_rrule and ev = ?retitled and mfs = keep_page] new1
  have "modifyEvent mem_app no_rrule keep_page ?loc ?retitled ?w =
          (Inr (), \<lparr>vault = v2,
                    trace = [UpdateCacheWithLocation
                               \<lparr>file = \<lparr>path = ''A/2024-01-10 Daily.md''\<rparr>, lineNumber = None\<rparr>,
                             Rename ?f ''A/2024-01-10 Daily.md'', Rewrite ?f]\<rparr>)"
    using differs renamed rewritten1 by (simp add: Let_def)
  then have a: "fst (modifyEvent mem_app no_rrule keep_page ?loc ?retitled ?w) = Inr ()"
    and a': "trace (snd (modifyEvent mem_app no_rrule keep_page ?loc ?retitled ?w)) =
          [UpdateCacheWithLocation \<lparr>file = \<lparr>path = ''A/2024-01-10 Daily.md''\<rparr>, lineNumber = None\<rparr>,
           Rename ?f ''A/2024-01-10 Daily.md'', Rewrite ?f]"
    and a'': "map current (vfiles (vault (snd (modifyEvent mem_app no_rrule keep_page ?loc
                ?retitled ?w)))) =
              [''A/2024-01-10 Daily.md'', ''A/archive/(Every M,W) Retro.md'']"
    using now by simp_all
  from all [where rr = no_rrule and ev = ?retimed and mfs = keep_page] new2
  have b: "trace (snd (modifyEvent mem_app no_rrule keep_page ?loc ?retimed ?w)) =
          [UpdateCacheWithLocation \<lparr>file = \<lparr>path = ''A/2024-01-10 Standup.md''\<rparr>, lineNumber = None\<rparr>,
           Rewrite ?f]"
    using same rewritten2 by (auto simp: Let_def split: sum.splits)
  from all [where rr = weekly_rrule and ev = broken_rule and mfs = keep_page] new3
  have c: "modifyEvent mem_app weekly_rrule keep_page ?loc broken_rule ?w =
             (Inl (RRuleError ''Unknown RRULE property''), ?w)"
    by blast
  from found have found': "getFileByPath mem_app example_vault
     (normalizeVaultPath ''A/2024-01-10 Standup.md'') = Some ?f"
    by simp
  from a a' a'' b c found' show ?thesis by simp
qed

theorem modifyEvent_updates_cache_once_counterexample:
  "getFileByPath mem_app crowded_vault (normalizeVaultPath ''A/2024-01-10 Standup.md'') =
     Some (tfile_at ''A/2024-01-10 Standup.md'') \<and>
   modifyEvent mem_app no_rrule keep_page
     \<lparr>loc_path = ''A/2024-01-10 Standup.md'', loc_lineNumber = None\<rparr>
     (set_prop standup ''title'' (Some (PStr ''Daily'')))
     \<lparr>vault = crowded_vault, trace = []\<rparr> =
     (Inl (VaultError ''Destination file already exists!''),
      \<lparr>vault = crowded_vault,
       trace =
         [UpdateCacheWithLocation
            \<lparr>file = \<lparr>path = ''A/2024-01-10 Daily.md''\<rparr>, lineNumber = None\<rparr>,
          Rename (tfile_at ''A/2024-01-10 Standup.md'') ''A/2024-01-10 Daily.md'']\<rparr>) \<and>
   getFileByPath mem_app example_vault (normalizeVaultPath ''A/2024-01-10 Standup.md'') =
     Some (tfile_at ''A/2024-01-10 Standup.md'') \<and>
   modifyEvent mem_app weekly_rrule keep_page
     \<lparr>loc_path = ''A/2024-01-10 Standup.md'', loc_lineNumber = None\<rparr> broken_rule
     \<lparr>vault = example_vault, trace = []\<rparr> =
     (Inl (RRuleError ''Unknown RRULE property''), \<lparr>vault = example_vault, trace = []\<rparr>)"
  by code_simp

section \<open>The note calendar: creating an event\<close>

text \<open>
  Claim C9, amended. \<open>createEvent\<close> joins the calendar's directory with the file name
  derived from the event. If a file or folder exists at that path it rejects and leaves
  the world as it was. Otherwise its only effect is one call of \<open>create\<close> at that path
  with the event's frontmatter: when that call succeeds, \<open>createEvent\<close> returns the
  created file as a whole-file location (no line number); when it throws,
  \<open>createEvent\<close> rejects with what it threw and the vault is as it was. When the file
  name cannot be computed, \<open>createEvent\<close> rejects with no effect.
\<close>

theorem createEvent_effects:
  "(\<forall>e. filenameForEvent rr ev = Inl e \<longrightarrow> createEvent app rr directory ev w = (Inl e, w)) \<and>
   (\<forall>filename. filenameForEvent rr ev = Inr filename \<longrightarrow>
      (getAbstractFileByPath app (vault w) (joinVaultPath directory filename) \<noteq> None \<longrightarrow>
         createEvent app rr directory ev w =
           (Inl (AlreadyExists (joinVaultPath directory filename)), w)) \<and>
      (getAbstractFileByPath app (vault w) (joinVaultPath directory filename) = None \<longrightarrow>
         trace (snd (createEvent app rr directory ev w)) =
           trace w @ [Create (joinVaultPath directory filename) (newFrontmatter ev)] \<and>
         (\<forall>f v'. create app (vault w) (joinVaultPath directory filename) (newFrontmatter ev) =
                   Inr (f, v') \<longrightarrow>
            fst (createEvent app rr directory ev w) = Inr \<lparr>file = f, lineNumber = None\<rparr> \<and>
            vault (snd (createEvent app rr directory ev w)) = v') \<and>
         (\<forall>e. create app (vault w) (joinVaultPath directory filename) (newFrontmatter ev) =
                 Inl e \<longrightarrow>
            fst (createEvent app rr directory ev w) = Inl e \<and>
            vault (snd (createEvent app rr directory ev w)) = vault w)))"
  by (auto simp: createEvent_def Let_def call_create_def split: sum.splits prod.splits)

theorem createEvent_effects_witness:
  "createEvent mem_app no_rrule ''A'' standup \<lparr>vault = example_vault, trace = []\<rparr> =
     (Inl (AlreadyExists ''A/2024-01-10 Standup.md''), \<lparr>vault = example_vault, trace = []\<rparr>) \<and>
   fst (createEvent mem_app no_rrule ''/B/'' standup \<lparr>vault = example_vault, trace = []\<rparr>) =
     Inr \<lparr>file = tfile_at ''B/2024-01-10 Standup.md'', lineNumber = None\<rparr> \<and>
   trace (snd (createEvent mem_app no_rrule ''/B/'' standup \<lparr>vault = example_vault, trace = []\<rparr>)) =
     [Create ''B/2024-01-10 Standup.md'' (newFrontmatter standup)] \<and>
   newFrontmatter standup =
     ''---'' @ [CHR 0x0A] @ ''title: Standup'' @ [CHR 0x0A] @ ''type: single'' @ [CHR 0x0A] @
     ''date: 2024-01-10'' @ [CHR 0x0A] @ ''startTime: 09:00'' @ [CHR 0x0A] @
     ''allDay: false'' @ [CHR 0x0A] @ ''---'' @ [CHR 0x0A] \<and>
   createEvent mem_app weekly_rrule ''B'' broken_rule \<lparr>vault = example_vault, trace = []\<rparr> =
     (Inl (RRuleError ''Unknown RRULE property''), \<lparr>vault = example_vault, trace = []\<rparr>)"
proof -
  let ?w = "\<lparr>vault = example_vault, trace = []\<rparr>"
  have name: "filenameForEvent no_rrule standup = Inr ''2024-01-10 Standup.md''"
    by code_simp
  have noname: "filenameForEvent weekly_rrule broken_rule =
                  Inl (RRuleError ''Unknown RRULE property'')"
    by code_simp
  have pa: "joinVaultPath ''A'' ''2024-01-10 Standup.md'' = ''A/2024-01-10 Standup.md''"
    by code_simp
  have pb: "joinVaultPath ''/B/'' ''2024-01-10 Standup.md'' = ''B/2024-01-10 Standup.md''"
    by code_simp
  have taken: "getAbstractFileByPath mem_app (vault ?w) ''A/2024-01-10 Standup.md'' \<noteq> None"
    by code_simp
  have free: "getAbstractFileByPath mem_app (vault ?w) ''B/2024-01-10 Standup.md'' = None"
    by code_simp
  have made: "map_sum id fst (create mem_app (vault ?w) ''B/2024-01-10 Standup.md''
                (newFrontmatter standup)) =
              Inr (tfile_at ''B/2024-01-10 Standup.md'')"
    by code_simp
  have fm: "newFrontmatter standup =
     ''---'' @ [CHR 0x0A] @ ''title: Standup'' @ [CHR 0x0A] @ ''type: single'' @ [CHR 0x0A] @
     ''date: 2024-01-10'' @ [CHR 0x0A] @ ''startTime: 09:00'' @ [CHR 0x0A] @
     ''allDay: false'' @ [CHR 0x0A] @ ''---'' @ [CHR 0x0A]"
    by code_simp
  obtain v' where made':
    "create mem_app (vault ?w) ''B/2024-01-10 Standup.md'' (newFrontmatter standup) =
       Inr (tfile_at ''B/2024-01-10 Standup.md'', v')"
    using made
    by (cases "create mem_app (vault ?w) ''B/2024-01-10 Standup.md'' (newFrontmatter standup)")
       auto
  note inA = createEvent_effects [where rr = no_rrule and ev = standup and app = mem_app and
        directory = "''A''" and w = ?w]
  note inB = createEvent_effects [where rr = no_rrule and ev = standup and app = mem_app and
        directory = "''/B/''" and w = ?w]
  note broken = createEvent_effects [where rr = weekly_rrule and ev = broken_rule and
        app = mem_app and directory = "''B''" and w = ?w]
  from inA name taken
  have a: "createEvent mem_app no_rrule ''A'' standup ?w =
             (Inl (AlreadyExists ''A/2024-01-10 Standup.md''), ?w)"
    unfolding pa [symmetric] by blast
  from inB name free made'
  have b: "fst (createEvent mem_app no_rrule ''/B/'' standup ?w) =
             Inr \<lparr>file = tfile_at ''B/2024-01-10 Standup.md'', lineNumber = None\<rparr> \<and>
           trace (snd (createEvent mem_app no_rrule ''/B/'' standup ?w)) =
             trace ?w @ [Create ''B/2024-01-10 Standup.md'' (newFrontmatter standup)]"
    unfolding pb [symmetric] by blast
  from broken noname
  have c: "createEvent mem_app weekly_rrule ''B'' broken_rule ?w =
             (Inl (RRuleError ''Unknown RRULE property''), ?w)"
    by blast
  from a b c fm show ?thesis by simp
qed

theorem createEvent_effects_counterexample:
  "getAbstractFileByPath mem_app example_vault ''B/2024-01-10 Lunch w/ Bob.md'' = None \<and>
   createEvent mem_app no_rrule ''B'' (set_prop standup ''title'' (Some (PStr ''Lunch w/ Bob'')))
     \<lparr>vault = example_vault, trace = []\<rparr> =
     (Inl (VaultError ''Folder does not exist.''),
      \<lparr>vault = example_vault,
       trace = [Create ''B/2024-01-10 Lunch w/ Bob.md''
                  (newFrontmatter (set_prop standup ''title'' (Some (PStr ''Lunch w/ Bob''))))]\<rparr>) \<and>
   createEvent mem_app weekly_rrule ''B'' broken_rule \<lparr>vault = example_vault, trace = []\<rparr> =
     (Inl (RRuleError ''Unknown RRULE property''), \<lparr>vault = example_vault, trace = []\<rparr>)"
  by code_simp

section \<open>The note calendar: reading the events\<close>

lemma getEvents_loop_eq:
  "getEvents_loop app ve v cs acc =
     acc @ concat (map (getEventsInFile app ve v) (child_files cs))"
  by (induction app ve v cs acc rule: getEvents_loop.induct) auto

lemma getEventsInFile_location:
  "x \<in> set (getEventsInFile app ve v f) \<Longrightarrow> snd x = \<lparr>file = f, lineNumber = None\<rparr>"
  by (auto simp: getEventsInFile_def Let_def split: option.splits if_splits)

lemma child_files_direct: "f \<in> set (child_files cs) \<Longrightarrow> AFile f \<in> set cs"
  by (induction cs rule: child_files.induct) auto

text \<open>
  Claim C10. \<open>getEvents\<close> rejects when the configured directory resolves to nothing or
  to a file. Otherwise it returns the events of the files that are direct children of
  the folder, in order: every returned location is a whole-file location of a direct
  child, so a file inside a subfolder is never included. The recursive traversal is not
  used.
\<close>

theorem getEvents_direct_children:
  assumes "eventFolder =
             (if normalizeVaultPath directory \<noteq> []
              then getAbstractFileByPath app v (normalizeVaultPath directory)
              else getRoot app v)"
  shows "case eventFolder of
           None \<Rightarrow> getEvents app ve directory v = Inl (CannotGetFolder directory)
         | Some (AFile f) \<Rightarrow> getEvents app ve directory v = Inl NotADirectory
         | Some (AFolder p children) \<Rightarrow>
             getEvents app ve directory v =
               Inr (concat (map (getEventsInFile app ve v) (child_files children))) \<and>
             (\<forall>x \<in> set (concat (map (getEventsInFile app ve v) (child_files children))).
                AFile (file (snd x)) \<in> set children \<and> lineNumber (snd x) = None)"
proof (cases eventFolder)
  case None
  then show ?thesis using assms by (simp add: getEvents_def Let_def)
next
  case (Some entry)
  show ?thesis
  proof (cases entry)
    case (AFile f)
    then show ?thesis using Some assms by (simp add: getEvents_def Let_def)
  next
    case (AFolder p children)
    have "getEvents app ve directory v =
            Inr (concat (map (getEventsInFile app ve v) (child_files children)))"
      using AFolder Some assms by (simp add: getEvents_def Let_def getEvents_loop_eq)
    moreover have "AFile (file (snd x)) \<in> set children \<and> lineNumber (snd x) = None"
      if "x \<in> set (concat (map (getEventsInFile app ve v) (child_files children)))" for x
    proof -
      from that obtain f where f: "f \<in> set (child_files children)"
        and x: "x \<in> set (getEventsInFile app ve v f)" by auto
      from getEventsInFile_location [OF x] child_files_direct [OF f] show ?thesis by simp
    qed
    ultimately show ?thesis using AFolder Some by auto
  qed
qed

theorem getEvents_direct_children_witness:
  "getEvents mem_app accept_frontmatter ''A'' example_vault =
     Inr [(standup, \<lparr>file = tfile_at ''A/2024-01-10 Standup.md'', lineNumber = None\<rparr>)] \<and>
   map (file \<circ> snd)
     (concat (map (getEventsInFolderRecursive mem_app accept_frontmatter example_vault)
        (case getAbstractFileByPath mem_app example_vault ''A'' of None \<Rightarrow> [] | Some d \<Rightarrow> [d]))) =
     [tfile_at ''A/2024-01-10 Standup.md'', tfile_at ''A/archive/(Every M,W) Retro.md''] \<and>
   getEvents mem_app accept_frontmatter ''C'' example_vault = Inl (CannotGetFolder ''C'') \<and>
   getEvents mem_app accept_frontmatter ''A/2024-01-10 Standup.md'' example_vault =
     Inl NotADirectory"
proof -
  let ?sub = "AFolder ''A/archive'' [AFile (tfile_at ''A/archive/(Every M,W) Retro.md'')]"
  let ?children = "[AFile (tfile_at ''A/2024-01-10 Standup.md''), ?sub]"
  have na: "normalizeVaultPath ''A'' = ''A''" by code_simp
  have nc: "normalizeVaultPath ''C'' = ''C''" by code_simp
  have nf: "normalizeVaultPath ''A/2024-01-10 Standup.md'' = ''A/2024-01-10 Standup.md''"
    by code_simp
  have fa: "getAbstractFileByPath mem_app example_vault ''A'' = Some (AFolder ''A'' ?children)"
    by code_simp
  have fc: "getAbstractFileByPath mem_app example_vault ''C'' = None" by code_simp
  have ff: "getAbstractFileByPath mem_app example_vault ''A/2024-01-10 Standup.md'' =
              Some (AFile (tfile_at ''A/2024-01-10 Standup.md''))"
    by code_simp
  have ev: "getEventsInFile mem_app accept_frontmatter example_vault
              (tfile_at ''A/2024-01-10 Standup.md'') =
            [(standup, \<lparr>file = tfile_at ''A/2024-01-10 Standup.md'', lineNumber = None\<rparr>)]"
    by code_simp
  have a: "getEvents mem_app accept_frontmatter ''A'' example_vault =
             Inr [(standup, \<lparr>file = tfile_at ''A/2024-01-10 Standup.md'', lineNumber = None\<rparr>)]"
    using getEvents_direct_children [OF refl, where directory = "''A''" and app = mem_app and
        v = example_vault and ve = accept_frontmatter]
    by (simp add: na fa ev)
  have c: "getEvents mem_app accept_frontmatter ''C'' example_vault = Inl (CannotGetFolder ''C'')"
    using getEvents_direct_children [OF refl, where directory = "''C''" and app = mem_app and
        v = example_vault and ve = accept_frontmatter]
    by (simp add: nc fc)
  have f: "getEvents mem_app accept_frontmatter ''A/2024-01-10 Standup.md'' example_vault =
             Inl NotADirectory"
    using getEvents_direct_children [OF refl, where directory = "''A/2024-01-10 Standup.md''" and
        app = mem_app and v = example_vault and ve = accept_frontmatter]
    by (simp add: nf ff)
  have r: "map (file \<circ> snd)
     (concat (map (getEventsInFolderRecursive mem_app accept_frontmatter example_vault)
        (case getAbstractFileByPath mem_app example_vault ''A'' of None \<Rightarrow> [] | Some d \<Rightarrow> [d]))) =
     [tfile_at ''A/2024-01-10 Standup.md'', tfile_at ''A/archive/(Every M,W) Retro.md'']"
    by code_simp
  from a c f r show ?thesis by blast
qed

section \<open>The note calendar: the new location of an event\<close>



















section \<open>Revalidation of a Google calendar\<close>

lemma not_cancelled_status:
  "not_cancelled xs = Inr kept \<Longrightarrow> e \<in> set kept \<Longrightarrow>
   \<exists>st. js_member e ''status'' = Inr st \<and> st \<noteq> JStr ''cancelled''"
proof (induction xs arbitrary: kept)
  case Nil
  then show ?case by simp
next
  case (Cons x xs)
  from Cons.prems(1) obtain st rest where st: "js_member x ''status'' = Inr st"
    and rest: "not_cancelled xs = Inr rest"
    and kept: "kept = (if st \<noteq> JStr ''cancelled'' then x # rest else rest)"
    by (auto split: sum.splits)
  show ?case
  proof (cases "e \<in> set rest")
    case True
    from Cons.IH [OF rest True] show ?thesis .
  next
    case False
    with Cons.prems(2) kept have "e = x" "st \<noteq> JStr ''cancelled''"
      by (auto split: if_splits)
    with st show ?thesis by simp
  qed
qed

lemma read_page_sound:
  assumes "read_page data = Inr (kept, pageToken)"
  shows "(\<exists>error. js_member data ''error'' = Inr error \<and> \<not> js_truthy error) \<and>
         (\<forall>e \<in> set kept. \<exists>st. js_member e ''status'' = Inr st \<and> st \<noteq> JStr ''cancelled'')"
proof -
  from assms obtain error items where error: "js_member data ''error'' = Inr error"
    and falsy: "\<not> js_truthy error"
    and items: "js_member data ''items'' = Inr items"
    and kept: "(if js_truthy items then filter_items items else Inr []) = Inr kept"
    by (auto simp: read_page_def split: sum.splits if_splits)
  have "\<exists>st. js_member e ''status'' = Inr st \<and> st \<noteq> JStr ''cancelled''"
    if "e \<in> set kept" for e
  proof (cases "js_truthy items")
    case False
    with kept that show ?thesis by simp
  next
    case True
    with kept obtain xs where "items = JArr xs" "not_cancelled xs = Inr kept"
      by (cases items) auto
    from not_cancelled_status [OF this(2) that] show ?thesis .
  qed
  with error falsy show ?thesis by blast
qed

lemma kept_items_status:
  "e \<in> set (kept_items data) \<Longrightarrow>
   \<exists>st. js_member e ''status'' = Inr st \<and> st \<noteq> JStr ''cancelled''"
  using read_page_sound [of data]
  by (cases "read_page data") (auto simp: kept_items_def)

lemma fetched_no_error:
  "fetched requestUrl mk srv pt pages srv' \<Longrightarrow> data \<in> set pages \<Longrightarrow>
   \<exists>error. js_member data ''error'' = Inr error \<and> \<not> js_truthy error"
  by (induction rule: fetched.induct) (auto dest: read_page_sound)

lemma fetch_pages_fetched_aux:
  assumes "fetch_pages requestUrl mk allEvents pageToken srv = Some y"
  shows "case y of
           (Inl e, srv') \<Rightarrow> True
         | (Inr result, srv') \<Rightarrow>
             (\<exists>pages. fetched requestUrl mk srv pageToken pages srv' \<and>
                      result = allEvents @ concat (map kept_items pages))"
proof (rule fetch_pages.raw_induct
    [where P = "\<lambda>requestUrl mk allEvents pageToken srv y.
       case y of
         (Inl e, srv') \<Rightarrow> True
       | (Inr result, srv') \<Rightarrow>
           (\<exists>pages. fetched requestUrl mk srv pageToken pages srv' \<and>
                    result = allEvents @ concat (map kept_items pages))",
     OF _ assms], goal_cases)
  case (1 fetch_pages requestUrl mk allEvents pageToken srv y)
  obtain r srv1 where rq: "requestUrl srv (mk pageToken) = (r, srv1)"
    by (cases "requestUrl srv (mk pageToken)")
  show ?case
  proof (cases r)
    case (Inl e)
    with 1(2) rq show ?thesis by auto
  next
    case (Inr data)
    note data = this
    show ?thesis
    proof (cases "read_page data")
      case (Inl e)
      with 1(2) rq data show ?thesis by auto
    next
      case (Inr page)
      obtain kept next_token where page: "page = (kept, next_token)" by (cases page)
      with Inr have ok: "read_page data = Inr (kept, next_token)" by simp
      then have kept: "kept_items data = kept" by (simp add: kept_items_def)
      show ?thesis
      proof (cases "js_truthy next_token")
        case False
        with 1(2) rq data ok have y: "y = (Inr (allEvents @ kept), srv1)" by simp
        have "fetched requestUrl mk srv pageToken [data] srv1"
          using rq data ok False by (auto intro: fetched.last_page)
        with y kept show ?thesis by fastforce
      next
        case True
        with 1(2) rq data ok
        have rec: "fetch_pages requestUrl mk (allEvents @ kept) next_token srv1 = Some y"
          by simp
        obtain res srv' where y: "y = (res, srv')" by (cases y)
        show ?thesis
        proof (cases res)
          case (Inl e)
          with y show ?thesis by simp
        next
          case (Inr result)
          with 1(1) [OF rec] y obtain pages where
            pages: "fetched requestUrl mk srv1 next_token pages srv'"
            and result: "result = (allEvents @ kept) @ concat (map kept_items pages)"
            by auto
          have "fetched requestUrl mk srv pageToken (data # pages) srv'"
            using rq data ok True pages by (auto intro: fetched.next_page)
          with result y Inr kept show ?thesis by fastforce
        qed
      qed
    qed
  qed
qed

lemma fetch_pages_fetched:
  assumes "fetch_pages requestUrl mk allEvents pageToken srv = Some (Inr result, srv')"
  shows "\<exists>pages. fetched requestUrl mk srv pageToken pages srv' \<and>
                 result = allEvents @ concat (map kept_items pages)"
  using fetch_pages_fetched_aux [OF assms] by simp

text \<open>
  Claim C1. Whenever \<open>revalidate\<close> settles with a failure (the access token could not
  be obtained, a request threw, or the body of the loop threw on a page, as it does
  when \<open>data.error\<close> is truthy), the calendar is exactly what it was before the call,
  its snapshot of events included. The snapshot is replaced only when every page was
  fetched and none of them carried a truthy \<open>error\<close>; it is then the events of these
  pages in order without those whose status is \<open>cancelled\<close>, and it holds no event
  whose status is \<open>cancelled\<close>.
\<close>

theorem revalidate_snapshot:
  assumes "revalidate requestUrl getValidAccessToken timeMin timeMax cal srv =
             Some ((res, cal'), srv')"
  shows "case res of
           Inl e \<Rightarrow> cal' = cal
         | Inr u \<Rightarrow>
             (\<exists>token pages.
                getValidAccessToken = Inr token \<and>
                fetched requestUrl (make_request cal token timeMin timeMax) srv JUndefined
                  pages srv' \<and>
                (\<forall>data \<in> set pages.
                   \<exists>error. js_member data ''error'' = Inr error \<and> \<not> js_truthy error) \<and>
                cal' = cal\<lparr>events := concat (map kept_items pages)\<rparr>) \<and>
             (\<forall>e \<in> set (events cal').
                \<exists>st. js_member e ''status'' = Inr st \<and> st \<noteq> JStr ''cancelled'')"
proof (cases getValidAccessToken)
  case (Inl e)
  with assms show ?thesis by (auto simp: revalidate_def)
next
  case (Inr token)
  let ?mk = "make_request cal token timeMin timeMax"
  from assms Inr obtain r where
    fp: "fetch_pages requestUrl ?mk [] JUndefined srv = Some (r, srv')"
    and out: "(case r of Inl e \<Rightarrow> res = Inl e \<and> cal' = cal
               | Inr allEvents \<Rightarrow> res = Inr () \<and> cal' = cal\<lparr>events := allEvents\<rparr>)"
    by (auto simp: revalidate_def split: option.splits sum.splits)
  show ?thesis
  proof (cases r)
    case (Inl e)
    with out show ?thesis by simp
  next
    case (Inr allEvents)
    with fp fetch_pages_fetched [of requestUrl ?mk "[]" JUndefined srv allEvents srv']
    obtain pages where pages: "fetched requestUrl ?mk srv JUndefined pages srv'"
      and all: "allEvents = concat (map kept_items pages)"
      by auto
    have status: "\<forall>e \<in> set (concat (map kept_items pages)).
                    \<exists>st. js_member e ''status'' = Inr st \<and> st \<noteq> JStr ''cancelled''"
      by (auto dest: kept_items_status)
    have clean: "\<forall>data \<in> set pages.
                   \<exists>error. js_member data ''error'' = Inr error \<and> \<not> js_truthy error"
      using fetched_no_error [OF pages] by blast
    from out Inr all have res: "res = Inr ()"
      and cal': "cal' = cal\<lparr>events := concat (map kept_items pages)\<rparr>"
      by simp_all
    from status cal' have "\<forall>e \<in> set (events cal').
        \<exists>st. js_member e ''status'' = Inr st \<and> st \<noteq> JStr ''cancelled''"
      by simp
    moreover have "\<exists>token pages.
        getValidAccessToken = Inr token \<and>
        fetched requestUrl (make_request cal token timeMin timeMax) srv JUndefined pages srv' \<and>
        (\<forall>data \<in> set pages.
           \<exists>error. js_member data ''error'' = Inr error \<and> \<not> js_truthy error) \<and>
        cal' = cal\<lparr>events := concat (map kept_items pages)\<rparr>"
      using \<open>getValidAccessToken = Inr token\<close> pages clean cal' by blast
    ultimately show ?thesis using res by simp
  qed
qed

theorem revalidate_snapshot_witness:
  "revalidate (two_pages Sound) (Inr ''token'') ''2026-05-01'' ''2027-05-01'' old_calendar 0 =
     Some ((Inr (), old_calendar\<lparr>events := [gevent ''a'' (JStr ''confirmed''),
                                              gevent ''c'' JUndefined]\<rparr>), 2) \<and>
   revalidate (two_pages ErrorWithMessage) (Inr ''token'') ''2026-05-01'' ''2027-05-01''
     old_calendar 0 =
     Some ((Inl (ApiError (JStr ''Rate Limit Exceeded'')), old_calendar), 2) \<and>
   revalidate (two_pages ErrorString) (Inr ''token'') ''2026-05-01'' ''2027-05-01''
     old_calendar 0 =
     Some ((Inl (ApiError JUndefined), old_calendar), 2) \<and>
   revalidate (two_pages NullItem) (Inr ''token'') ''2026-05-01'' ''2027-05-01''
     old_calendar 0 =
     Some ((Inl ResponseTypeError, old_calendar), 2) \<and>
   revalidate (two_pages Sound) (Inl (AuthError ''Not authenticated'')) ''2026-05-01''
     ''2027-05-01'' old_calendar 0 =
     Some ((Inl (AuthError ''Not authenticated''), old_calendar), 0)"
proof -
  let ?run = "\<lambda>variant token.
     revalidate (two_pages variant) token ''2026-05-01'' ''2027-05-01'' old_calendar 0"
  let ?after = "\<lambda>variant token. snd (fst (the (?run variant token)))"
  have sound: "?run Sound (Inr ''token'') = Some ((Inr (), ?after Sound (Inr ''token'')), 2)"
    by code_simp
  have new: "?after Sound (Inr ''token'') =
             old_calendar\<lparr>events := [gevent ''a'' (JStr ''confirmed''), gevent ''c'' JUndefined]\<rparr>"
    by code_simp
  have message: "?run ErrorWithMessage (Inr ''token'') =
      Some ((Inl (ApiError (JStr ''Rate Limit Exceeded'')),
             ?after ErrorWithMessage (Inr ''token'')), 2)"
    by code_simp
  have bare: "?run ErrorString (Inr ''token'') =
      Some ((Inl (ApiError JUndefined), ?after ErrorString (Inr ''token'')), 2)"
    by code_simp
  have null: "?run NullItem (Inr ''token'') =
      Some ((Inl ResponseTypeError, ?after NullItem (Inr ''token'')), 2)"
    by code_simp
  have auth: "?run Sound (Inl (AuthError ''Not authenticated'')) =
      Some ((Inl (AuthError ''Not authenticated''),
             ?after Sound (Inl (AuthError ''Not authenticated''))), 0)"
    by code_simp
  from revalidate_snapshot [OF message]
  have "?after ErrorWithMessage (Inr ''token'') = old_calendar" by simp
  moreover from revalidate_snapshot [OF bare]
  have "?after ErrorString (Inr ''token'') = old_calendar" by simp
  moreover from revalidate_snapshot [OF null]
  have "?after NullItem (Inr ''token'') = old_calendar" by simp
  moreover from revalidate_snapshot [OF auth]
  have "?after Sound (Inl (AuthError ''Not authenticated'')) = old_calendar" by simp
  ultimately show ?thesis using sound new message bare null auth by simp
qed

section \<open>The one-shot latch of the event form\<close>

lemma form_step_latched:
  "hasCreated m \<Longrightarrow>
   hasCreated (form_step True m e) \<and> submit_calls (form_step True m e) = submit_calls m"
  by (cases e) (simp_all add: performSave_def Let_def)

lemma form_run_latched:
  "hasCreated m \<Longrightarrow> submit_calls (form_run True m es) = submit_calls m"
  unfolding form_run_def
proof (induction es arbitrary: m)
  case Nil
  show ?case by simp
next
  case (Cons e es)
  from form_step_latched [OF Cons.prems, of e]
  have "hasCreated (form_step True m e)"
    and same: "submit_calls (form_step True m e) = submit_calls m"
    by simp_all
  from Cons.IH [OF this(1)] same show ?case by simp
qed

lemma settled_save:
  "settled m \<Longrightarrow>
   settled (form_step True (performSave True base date calendarIndex overrides m) SubmitFulfilled)"
  by (auto simp: settled_def performSave_def Let_def)

lemma settled_run:
  "settled m \<Longrightarrow> settled (form_run True m (one_at_a_time saves))"
  unfolding form_run_def one_at_a_time_def
proof (induction saves arbitrary: m)
  case Nil
  then show ?case by simp
next
  case (Cons s saves)
  obtain base date calendarIndex overrides where s: "s = (base, date, calendarIndex, overrides)"
    by (cases s)
  from Cons.IH [OF settled_save [OF Cons.prems, of base date calendarIndex overrides]]
  show ?case by (simp add: s)
qed

text \<open>
  Claim C6, amended. In create mode \<open>performSave\<close> does nothing (it makes no call of
  \<open>submit\<close>) when the title of the data or the date of the form is empty. Once the
  latch is set, \<open>performSave\<close> does nothing, and whatever happens to the form later,
  no further call of \<open>submit\<close> is made. Hence over any sequence of saves in which
  every \<open>submit\<close> is fulfilled before the next call of \<open>performSave\<close> begins,
  \<open>submit\<close> is called at most once.
\<close>

theorem performSave_create_latch:
  "(\<not> truthy (get_prop (case overrides of None \<Rightarrow> base | Some ov \<Rightarrow> spread base ov) ''title'') \<or>
      date = None \<or> date = Some [] \<longrightarrow>
      performSave True base date calendarIndex overrides m = m) \<and>
   (hasCreated m \<longrightarrow>
      performSave True base date calendarIndex overrides m = m \<and>
      submit_calls (form_run True m es) = submit_calls m) \<and>
   length (submit_calls (form_run True initial_modal (one_at_a_time saves))) \<le> 1"
proof -
  have "settled initial_modal" by (simp add: settled_def initial_modal_def)
  from settled_run [OF this, of saves]
  have "length (submit_calls (form_run True initial_modal (one_at_a_time saves))) \<le> 1"
    by (auto simp: settled_def split: if_splits)
  then show ?thesis
    by (auto simp: performSave_def Let_def form_run_latched)
qed

theorem performSave_create_latch_witness:
  "\<not> truthy (get_prop (set_prop standup ''title'' (Some (PStr ''''))) ''title'') \<and>
   performSave True (set_prop standup ''title'' (Some (PStr ''''))) (Some ''2024-01-10'') 0 None
     initial_modal = initial_modal \<and>
   hasCreated (form_run True initial_modal
      [PerformSave standup (Some ''2024-01-10'') 0 None, MarkCreated]) \<and>
   submit_calls (form_run True initial_modal
      ([PerformSave standup (Some ''2024-01-10'') 0 None, MarkCreated] @
       [PerformSave standup (Some ''2024-01-10'') 0 None, SubmitFulfilled,
        PerformSave standup (Some ''2024-01-10'') 0 (Some [(''color'', Some (PStr ''#ff0000''))])])) =
     [(standup, 0)] \<and>
   length (submit_calls (form_run True initial_modal
      (one_at_a_time [(standup, Some ''2024-01-10'', 0, None),
                      (standup, Some ''2024-01-10'', 0, None)]))) \<le> 1"
proof -
  let ?untitled = "set_prop standup ''title'' (Some (PStr ''''))"
  let ?save = "PerformSave standup (Some ''2024-01-10'') 0 None"
  let ?recolour =
    "PerformSave standup (Some ''2024-01-10'') 0 (Some [(''color'', Some (PStr ''#ff0000''))])"
  let ?m = "form_run True initial_modal [?save, MarkCreated]"
  have blank: "\<not> truthy (get_prop (case None of None \<Rightarrow> ?untitled | Some ov \<Rightarrow> spread ?untitled ov)
                 ''title'')"
    by code_simp
  have latched: "hasCreated ?m" by code_simp
  have first: "submit_calls ?m = [(standup, 0)]" by code_simp
  have split: "form_run True initial_modal ([?save, MarkCreated] @ [?save, SubmitFulfilled, ?recolour]) =
               form_run True ?m [?save, SubmitFulfilled, ?recolour]"
    by (simp add: form_run_def)
  note inst1 = performSave_create_latch
    [where overrides = None and base = ?untitled and date = "Some ''2024-01-10''" and
      calendarIndex = 0 and m = initial_modal]
  note inst2 = performSave_create_latch
    [where m = ?m and es = "[?save, SubmitFulfilled, ?recolour]" and
      saves = "[(standup, Some ''2024-01-10'', 0, None), (standup, Some ''2024-01-10'', 0, None)]"]
  from inst1 blank
  have a: "performSave True ?untitled (Some ''2024-01-10'') 0 None initial_modal = initial_modal"
    by blast
  from inst2 latched
  have b: "submit_calls (form_run True ?m [?save, SubmitFulfilled, ?recolour]) = submit_calls ?m"
    and c: "length (submit_calls (form_run True initial_modal
              (one_at_a_time [(standup, Some ''2024-01-10'', 0, None),
                              (standup, Some ''2024-01-10'', 0, None)]))) \<le> 1"
    by blast+
  from blank have blank': "\<not> truthy (get_prop ?untitled ''title'')" by simp
  show ?thesis using blank' a latched b c first unfolding split by simp
qed

theorem performSave_create_latch_counterexample:
  "submit_calls (form_run True initial_modal
      [PerformSave standup (Some ''2024-01-10'') 0 None,
       PerformSave standup (Some ''2024-01-10'') 0 None]) =
     [(standup, 0), (standup, 0)] \<and>
   submit_calls (form_run True initial_modal
      [PerformSave standup (Some ''2024-01-10'') 0 None, SubmitRejected,
       PerformSave standup (Some ''2024-01-10'') 0 None]) =
     [(standup, 0), (standup, 0)]"
  by code_simp

end
